theory Spec2Isabelle
  imports Main "HOL-Library.Word"
begin

section \<open>Go values\<close>

text \<open>
  Strings are byte strings (\<open>char list\<close>), as Go's are. A \<open>time.Time\<close> is the number of
  nanoseconds since a fixed instant and a \<open>time.Duration\<close> a number of nanoseconds; both
  are unbounded integers here (Go saturates a duration after about 292 years). Every
  reading of \<open>time.Now()\<close> is given from outside: as an argument of the function that
  takes it, or as a field of the world of \<open>HandleRegister\<close>.
\<close>

type_synonym time = int
type_synonym byte = "8 word"

definition Second :: int where
  "Second = 1000000000"

definition Minute :: int where
  "Minute = 60 * Second"

section \<open>The verification gate (package server)\<close>

record RateLimitEntry =
  Count :: int
  StartTime :: time

record VerificationCodeEntry =
  Code :: string
  CreatedAt :: time

text \<open>
  The two maps of \<open>Server\<close>. The source has the struct twice: with
  \<open>map[string]*VerificationCodeEntry\<close> (used by \<open>RegisterEmailAttempt\<close>,
  \<open>StoreVerificationCode\<close>, \<open>VerifyCode\<close>, \<open>cleanupExpired\<close>) and with
  \<open>map[string]string\<close> (used by the handlers); \<open>'c\<close> is the type of a stored code.
  The mutexes are not modelled: a call runs from its start to its end before the next.
\<close>

record 'c Server =
  EmailRateLimiter :: "string \<rightharpoonup> RateLimitEntry"
  VerificationCodes :: "string \<rightharpoonup> 'c"

definition expire :: "('v \<Rightarrow> time) \<Rightarrow> time \<Rightarrow> (string \<rightharpoonup> 'v) \<Rightarrow> (string \<rightharpoonup> 'v)" where
  "expire stamp now m =
     (\<lambda>email. case m email of
        None \<Rightarrow> None
      | Some entry \<Rightarrow> if now - stamp entry > 15 * Minute then None else Some entry)"

definition cleanupExpired ::
  "VerificationCodeEntry Server \<Rightarrow> time \<Rightarrow> VerificationCodeEntry Server" where
  "cleanupExpired s now =
     s\<lparr>EmailRateLimiter := expire StartTime now (EmailRateLimiter s),
       VerificationCodes := expire CreatedAt now (VerificationCodes s)\<rparr>"

text \<open>
  \<open>RegisterEmailAttempt s email now0 now1 now2\<close>: \<open>now0\<close> is the reading of
  \<open>cleanupExpired\<close>, \<open>now1\<close> the one of \<open>time.Since\<close>, \<open>now2\<close> the one stored as the
  new \<open>StartTime\<close>.
\<close>

definition RegisterEmailAttempt ::
  "VerificationCodeEntry Server \<Rightarrow> string \<Rightarrow> time \<Rightarrow> time \<Rightarrow> time
     \<Rightarrow> bool \<times> VerificationCodeEntry Server" where
  "RegisterEmailAttempt s email now0 now1 now2 =
     (let s1 = cleanupExpired s now0;
          fresh = s1\<lparr>EmailRateLimiter :=
                    (EmailRateLimiter s1)(email \<mapsto> \<lparr>Count = 1, StartTime = now2\<rparr>)\<rparr>
      in case EmailRateLimiter s1 email of
           None \<Rightarrow> (True, fresh)
         | Some entry \<Rightarrow>
             if now1 - StartTime entry > 3 * Minute then (True, fresh)
             else if Count entry \<ge> 3 then (False, s1)
             else (True, s1\<lparr>EmailRateLimiter :=
                     (EmailRateLimiter s1)(email \<mapsto> entry\<lparr>Count := Count entry + 1\<rparr>)\<rparr>))"

definition StoreVerificationCode ::
  "VerificationCodeEntry Server \<Rightarrow> string \<Rightarrow> string \<Rightarrow> time \<Rightarrow> VerificationCodeEntry Server" where
  "StoreVerificationCode s email code now =
     s\<lparr>VerificationCodes := (VerificationCodes s)(email \<mapsto> \<lparr>Code = code, CreatedAt = now\<rparr>)\<rparr>"

definition VerifyCode ::
  "VerificationCodeEntry Server \<Rightarrow> string \<Rightarrow> string \<Rightarrow> bool \<times> VerificationCodeEntry Server" where
  "VerifyCode s email code =
     (case VerificationCodes s email of
        None \<Rightarrow> (False, s)
      | Some entry \<Rightarrow>
          if Code entry \<noteq> code then (False, s)
          else (True, s\<lparr>VerificationCodes := (VerificationCodes s)(email := None)\<rparr>))"

section \<open>The HTTP layer (package server, handlers)\<close>

subsection \<open>Email format\<close>

text \<open>
  \<open>isValidEmail\<close> matches the lower-cased address against the regular expression
  \<^verbatim>\<open>^[a-z0-9._%+\-]+@[a-z0-9.\-]+\.[a-z]{2,}$\<close>. The expression is a term of \<open>rexp\<close>
  and matching is by derivatives, so the anchored match of Go's \<open>regexp\<close> is matching
  the whole string. All classes of the expression are ASCII, so a byte above 127 never
  matches, as the rune it belongs to never does.
\<close>

datatype rexp =
    Never
  | Empty
  | Class "char \<Rightarrow> bool"
  | Seq rexp rexp
  | Or rexp rexp
  | Many rexp

fun accepts_empty :: "rexp \<Rightarrow> bool" where
  "accepts_empty Never = False"
| "accepts_empty Empty = True"
| "accepts_empty (Class p) = False"
| "accepts_empty (Seq r q) = (accepts_empty r \<and> accepts_empty q)"
| "accepts_empty (Or r q) = (accepts_empty r \<or> accepts_empty q)"
| "accepts_empty (Many r) = True"

fun after :: "char \<Rightarrow> rexp \<Rightarrow> rexp" where
  "after c Never = Never"
| "after c Empty = Never"
| "after c (Class p) = (if p c then Empty else Never)"
| "after c (Seq r q) =
     (if accepts_empty r then Or (Seq (after c r) q) (after c q) else Seq (after c r) q)"
| "after c (Or r q) = Or (after c r) (after c q)"
| "after c (Many r) = Seq (after c r) (Many r)"

fun MatchString :: "rexp \<Rightarrow> string \<Rightarrow> bool" where
  "MatchString r [] = accepts_empty r"
| "MatchString r (c # cs) = MatchString (after c r) cs"

definition OneOrMore :: "rexp \<Rightarrow> rexp" where
  "OneOrMore r = Seq r (Many r)"

definition between :: "char \<Rightarrow> char \<Rightarrow> char \<Rightarrow> bool" where
  "between lo hi c = ((of_char lo :: nat) \<le> of_char c \<and> (of_char c :: nat) \<le> of_char hi)"

definition lower_az :: "char \<Rightarrow> bool" where
  "lower_az c = between (CHR ''a'') (CHR ''z'') c"

definition digit_09 :: "char \<Rightarrow> bool" where
  "digit_09 c = between (CHR ''0'') (CHR ''9'') c"

definition email_re :: rexp where
  "email_re =
     Seq (OneOrMore (Class (\<lambda>c. lower_az c \<or> digit_09 c \<or> c \<in> set ''._%+-'')))
    (Seq (Class (\<lambda>c. c = CHR ''@''))
    (Seq (OneOrMore (Class (\<lambda>c. lower_az c \<or> digit_09 c \<or> c \<in> set ''.-'')))
    (Seq (Class (\<lambda>c. c = CHR ''.''))
    (Seq (Class lower_az) (OneOrMore (Class lower_az))))))"

text \<open>
  \<open>strings.ToLower\<close> on the UTF-8 bytes: an ASCII capital becomes its small letter; the
  only other runes whose lower case is an ASCII character are U+212A (Kelvin sign, bytes
  E2 84 AA, to \<open>k\<close>) and U+0130 (bytes C4 B0, to \<open>i\<close>). Every other byte above 127 is
  kept: it fails the match, as the rune \<open>strings.ToLower\<close> produces there does.
\<close>

definition lower_byte :: "char \<Rightarrow> char" where
  "lower_byte c =
     (if between (CHR ''A'') (CHR ''Z'') c then char_of (of_char c + (32::nat)) else c)"

fun ToLower :: "string \<Rightarrow> string" where
  "ToLower (a # b # c # cs) =
     (if a = CHR 0xE2 \<and> b = CHR 0x84 \<and> c = CHR 0xAA then CHR ''k'' # ToLower cs
      else if a = CHR 0xC4 \<and> b = CHR 0xB0 then CHR ''i'' # ToLower (c # cs)
      else lower_byte a # ToLower (b # c # cs))"
| "ToLower [a, b] =
     (if a = CHR 0xC4 \<and> b = CHR 0xB0 then [CHR ''i''] else [lower_byte a, lower_byte b])"
| "ToLower [a] = [lower_byte a]"
| "ToLower [] = []"

definition isValidEmail :: "string \<Rightarrow> bool" where
  "isValidEmail email = MatchString email_re (ToLower email)"

subsection \<open>Requests and responses\<close>

text \<open>
  A request as a handler reads it: the method, the value of the header
  \<open>X-Requested-With\<close> (\<open>Header.Get\<close> gives the empty string when the header is absent)
  and the body as \<open>json.NewDecoder(r.Body).Decode\<close> leaves it in the handler's struct,
  \<open>None\<close> when \<open>Decode\<close> returns an error.
\<close>

record 'a Request =
  Method :: string
  X_Requested_With :: string
  Body :: "'a option"

text \<open>
  Errors of the registration store (\<open>database/sql\<close> on SQLite, and \<open>SaveRegistration\<close>'s
  own). \<open>DriverError\<close> is any other error of the driver, with its text: the functions of
  the store below are written for statements that run, and the handler's calls of
  \<open>UpdateRegistrationStatus\<close> (\<open>exec_UpdateRegistrationStatus\<close>) add the statement that fails.
\<close>

datatype db_error =
    ErrNoRows
  | UniqueConstraintFailed
  | UnknownRuntime string
  | DriverError string

text \<open>
  The \<open>data\<close> of an \<open>APIResponse\<close>: \<open>nil\<close>, the map with the key \<open>code\<close>, or the text
  \<open>err.Error()\<close> of a store error.
\<close>

datatype response_data = NoData | CodeData string | ErrorData db_error

text \<open>
  What a handler writes: \<open>SendJSON status success message data\<close>, or \<open>http.Error\<close> with
  its text and status.
\<close>

datatype Response =
    SendJSON int bool string response_data
  | http_Error string int

definition validateCSRF :: "'a Request \<Rightarrow> bool" where
  "validateCSRF r = (X_Requested_With r \<noteq> [])"

text \<open>
  \<open>HandleValidateEmail s r now1 now2 code\<close>: \<open>now1\<close> is the reading of \<open>time.Since\<close>,
  \<open>now2\<close> the one stored as \<open>StartTime\<close>, \<open>code\<close> the value of \<open>generateCode()\<close>.
\<close>

definition HandleValidateEmail ::
  "string Server \<Rightarrow> string Request \<Rightarrow> time \<Rightarrow> time \<Rightarrow> string \<Rightarrow> Response \<times> string Server" where
  "HandleValidateEmail s r now1 now2 code =
     (if Method r \<noteq> ''POST'' then (http_Error ''Method not allowed'' 405, s)
      else if \<not> validateCSRF r then
        (SendJSON 403 False ''Security check failed: missing CSRF header'' NoData, s)
      else case Body r of
        None \<Rightarrow> (SendJSON 400 False ''Invalid request body'' NoData, s)
      | Some email \<Rightarrow>
          if email = [] \<or> \<not> isValidEmail email then
            (SendJSON 400 False ''A valid email is required'' NoData, s)
          else
            let fresh = (EmailRateLimiter s)(email \<mapsto> \<lparr>Count = 1, StartTime = now2\<rparr>);
                limiter =
                  (case EmailRateLimiter s email of
                     None \<Rightarrow> Some fresh
                   | Some entry \<Rightarrow>
                       if now1 - StartTime entry > 3 * Minute then Some fresh
                       else if Count entry \<ge> 3 then None
                       else Some ((EmailRateLimiter s)
                                    (email \<mapsto> entry\<lparr>Count := Count entry + 1\<rparr>)))
            in case limiter of
                 None \<Rightarrow>
                   (SendJSON 429 False ''Too many requests. Please wait a few minutes.'' NoData, s)
               | Some m \<Rightarrow>
                   (SendJSON 200 True ''Validation code sent to your email'' (CodeData code),
                    s\<lparr>EmailRateLimiter := m,
                      VerificationCodes := (VerificationCodes s)(email \<mapsto> code)\<rparr>))"

text \<open>The body of a verify request is the pair of its \<open>email\<close> and its \<open>code\<close>.\<close>

definition HandleVerifyCode ::
  "string Server \<Rightarrow> (string \<times> string) Request \<Rightarrow> Response \<times> string Server" where
  "HandleVerifyCode s r =
     (if Method r \<noteq> ''POST'' then (http_Error ''Method not allowed'' 405, s)
      else if \<not> validateCSRF r then
        (SendJSON 403 False ''Security check failed: missing CSRF header'' NoData, s)
      else case Body r of
        None \<Rightarrow> (SendJSON 400 False ''Invalid request body'' NoData, s)
      | Some (email, code) \<Rightarrow>
          (case VerificationCodes s email of
             None \<Rightarrow> (SendJSON 400 False ''Invalid verification code'' NoData, s)
           | Some expectedCode \<Rightarrow>
               if expectedCode \<noteq> code then
                 (SendJSON 400 False ''Invalid verification code'' NoData, s)
               else
                 (SendJSON 200 True ''Email verified successfully'' NoData,
                  s\<lparr>VerificationCodes := (VerificationCodes s)(email := None)\<rparr>)))"

section \<open>The registration store (package db)\<close>

text \<open>
  A \<open>Registration\<close> is both the Go struct and a row of the table \<open>registrations\<close>; the
  fields carry the names of the columns (the struct's \<open>json\<close> tags). The table is the
  list of its rows in insertion order. \<open>NewService\<close> creates it with
  \<open>registration_id\<close>, \<open>email\<close> and \<open>vat_id\<close> each declared \<open>UNIQUE\<close>, in every
  runtime environment. A Go string is never \<open>NULL\<close>, so the empty string counts for
  uniqueness like any other. A statement that violates a constraint fails and changes
  nothing. Failures of the connection or of the database file are not modelled:
  a statement fails only on a constraint.
\<close>

record Registration =
  registration_id :: string
  email :: string
  first_name :: string
  last_name :: string
  company_name :: string
  country :: string
  vat_id :: string
  created_at :: time
  updated_at :: time
  issuance_at :: time
  issuance_error :: string
  notif_email_at :: time
  notif_email_error :: string

type_synonym table = "Registration list"

type_synonym RuntimeEnv = string

definition Development :: RuntimeEnv where
  "Development = ''dev''"

definition Preproduction :: RuntimeEnv where
  "Preproduction = ''pre''"

definition Production :: RuntimeEnv where
  "Production = ''pro''"

text \<open>The invariant the three \<open>UNIQUE\<close> constraints keep.\<close>

definition table_ok :: "table \<Rightarrow> bool" where
  "table_ok db =
     (distinct (map registration_id db) \<and> distinct (map email db) \<and> distinct (map vat_id db))"

text \<open>\<open>INSERT INTO registrations (...) VALUES (...)\<close>.\<close>

definition insert_row :: "Registration \<Rightarrow> table \<Rightarrow> db_error option \<times> table" where
  "insert_row reg db =
     (if list_ex (\<lambda>row. registration_id row = registration_id reg
                       \<or> email row = email reg
                       \<or> vat_id row = vat_id reg) db
      then (Some UniqueConstraintFailed, db)
      else (None, db @ [reg]))"

text \<open>\<open>SELECT ... WHERE vat_id = ? AND email = ?\<close>, first row; \<open>sql.ErrNoRows\<close> when none.\<close>

definition GetRegistration :: "string \<Rightarrow> string \<Rightarrow> table \<Rightarrow> db_error + Registration" where
  "GetRegistration vatID mail db =
     (case filter (\<lambda>row. vat_id row = vatID \<and> email row = mail) db of
        [] \<Rightarrow> Inl ErrNoRows
      | row # _ \<Rightarrow> Inr row)"

text \<open>
  \<open>UPDATE ... SET registration_id = ?, ... WHERE email = ? AND vat_id = ?\<close>. The statement
  violates the constraint on \<open>registration_id\<close> when a row it does not rewrite already
  holds the new identifier, or when it rewrites two rows. The functions on the store
  return the error, the struct behind the pointer \<open>reg\<close> as they leave it, and the table.
\<close>

definition AmendRegistration ::
  "Registration \<Rightarrow> time \<Rightarrow> table \<Rightarrow> db_error option \<times> Registration \<times> table" where
  "AmendRegistration reg0 now db =
     (let reg = reg0\<lparr>updated_at := now\<rparr>;
          hit = (\<lambda>row. email row = email reg \<and> vat_id row = vat_id reg);
          hits = filter hit db
      in if hits \<noteq> [] \<and>
            (length hits > 1 \<or>
             list_ex (\<lambda>row. \<not> hit row \<and> registration_id row = registration_id reg) db)
         then (Some UniqueConstraintFailed, reg, db)
         else (None, reg,
               map (\<lambda>row. if hit row
                          then row\<lparr>registration_id := registration_id reg,
                                   first_name := first_name reg,
                                   last_name := last_name reg,
                                   company_name := company_name reg,
                                   country := country reg,
                                   updated_at := updated_at reg,
                                   issuance_at := issuance_at reg,
                                   issuance_error := issuance_error reg,
                                   notif_email_at := notif_email_at reg,
                                   notif_email_error := notif_email_error reg\<rparr>
                          else row) db))"

text \<open>
  \<open>SaveRegistration runtime now now' reg db\<close>: \<open>now\<close> is its own reading of the clock,
  \<open>now'\<close> the reading of \<open>AmendRegistration\<close>.
\<close>

definition SaveRegistration ::
  "RuntimeEnv \<Rightarrow> time \<Rightarrow> time \<Rightarrow> Registration \<Rightarrow> table
     \<Rightarrow> db_error option \<times> Registration \<times> table" where
  "SaveRegistration runtime now now' reg0 db =
     (let reg = reg0\<lparr>created_at := now, updated_at := now, issuance_at := now,
                     notif_email_at := now, issuance_error := [], notif_email_error := []\<rparr>
      in if runtime = Development \<or> runtime = Preproduction then
           (case GetRegistration (vat_id reg) (email reg) db of
              Inr oldReg \<Rightarrow> AmendRegistration reg now' db
            | Inl err \<Rightarrow>
                if err \<noteq> ErrNoRows then (Some err, reg, db)
                else (case insert_row reg db of (e, db') \<Rightarrow> (e, reg, db')))
         else if runtime = Production then
           (case insert_row reg db of (e, db') \<Rightarrow> (e, reg, db'))
         else (Some (UnknownRuntime runtime), reg, db))"

text \<open>
  \<open>UPDATE ... SET updated_at = ?, issuance_at = ?, issuance_error = ?, notif_email_at = ?,
  notif_email_error = ? WHERE registration_id = ? AND email = ?\<close>.
\<close>

definition UpdateRegistrationStatus ::
  "Registration \<Rightarrow> time \<Rightarrow> table \<Rightarrow> db_error option \<times> Registration \<times> table" where
  "UpdateRegistrationStatus reg0 now db =
     (let reg = reg0\<lparr>updated_at := now\<rparr>
      in (None, reg,
          map (\<lambda>row. if registration_id row = registration_id reg \<and> email row = email reg
                     then row\<lparr>updated_at := updated_at reg,
                              issuance_at := issuance_at reg,
                              issuance_error := issuance_error reg,
                              notif_email_at := notif_email_at reg,
                              notif_email_error := notif_email_error reg\<rparr>
                     else row) db))"

section \<open>The issuance request body (package credissuance)\<close>

subsection \<open>JSON documents and Go slices\<close>

text \<open>
  The wire form is a JSON document, as a tree; an object keeps its members in order.
  What \<open>encoding/json\<close> does between the tree and the bytes (escaping, white space,
  replacing invalid UTF-8) is not modelled. A number carries its literal.
\<close>

datatype json =
    JNull
  | JBool bool
  | JNumber string
  | JString string
  | JArray "json list"
  | JObject "(string \<times> json) list"

text \<open>A Go slice is \<open>nil\<close> or holds a list; both have length 0 when empty.\<close>

datatype 'a slice = NilSlice | Slice "'a list"

fun elems :: "'a slice \<Rightarrow> 'a list" where
  "elems NilSlice = []"
| "elems (Slice xs) = xs"

definition len :: "'a slice \<Rightarrow> nat" where
  "len s = length (elems s)"

subsection \<open>The structs\<close>

record Mandator =
  OrganizationIdentifier :: string
  Organization :: string
  MandatorCountry :: string
  CommonName :: string
  EmailAddress :: string
  SerialNumber :: string

record Mandatee =
  MandateeFirstName :: string
  MandateeLastName :: string
  Nationality :: string
  MandateeEmail :: string

text \<open>\<open>Action\<close> has the type \<open>Strings\<close>, a \<open>[]string\<close> with its own \<open>MarshalJSON\<close>.\<close>

record Power =
  PowerType :: string
  PowerDomain :: string
  PowerFunction :: string
  Action :: "string slice"

record Payload =
  PayloadMandator :: Mandator
  PayloadMandatee :: Mandatee
  PayloadPower :: "Power slice"

record LEARIssuanceRequestBody =
  Schema :: string
  OperationMode :: string
  Format :: string
  ResponseUri :: string
  Payload :: Payload

subsection \<open>Serializing: \<open>json.Marshal\<close> on these structs\<close>

text \<open>
  A member tagged \<open>omitempty\<close> is left out when its Go value is empty: the empty string,
  or a slice of length 0. The tag of \<open>payload\<close>, \<open>mandator\<close> and \<open>mandatee\<close> has no
  \<open>omitempty\<close> (and a struct is never empty for \<open>encoding/json\<close>).
\<close>

definition omitempty_string :: "string \<Rightarrow> string \<Rightarrow> (string \<times> json) list" where
  "omitempty_string key v = (if v = [] then [] else [(key, JString v)])"

definition omitempty_slice :: "string \<Rightarrow> 'a slice \<Rightarrow> ('a slice \<Rightarrow> json) \<Rightarrow> (string \<times> json) list" where
  "omitempty_slice key v enc = (if len v = 0 then [] else [(key, enc v)])"

text \<open>\<open>json.Marshal\<close> of a \<open>[]string\<close>: \<open>null\<close> for the nil slice, an array otherwise.\<close>

fun Marshal_strings :: "string slice \<Rightarrow> json" where
  "Marshal_strings NilSlice = JNull"
| "Marshal_strings (Slice xs) = JArray (map JString xs)"

definition Strings_MarshalJSON :: "string slice \<Rightarrow> json" where
  "Strings_MarshalJSON s =
     (if len s = 1 then JString (elems s ! 0) else Marshal_strings s)"

definition Marshal_Power :: "Power \<Rightarrow> json" where
  "Marshal_Power p =
     JObject (omitempty_string ''type'' (PowerType p)
            @ omitempty_string ''domain'' (PowerDomain p)
            @ omitempty_string ''function'' (PowerFunction p)
            @ omitempty_slice ''action'' (Action p) Strings_MarshalJSON)"

definition Marshal_Mandator :: "Mandator \<Rightarrow> json" where
  "Marshal_Mandator m =
     JObject (omitempty_string ''organizationIdentifier'' (OrganizationIdentifier m)
            @ omitempty_string ''organization'' (Organization m)
            @ omitempty_string ''country'' (MandatorCountry m)
            @ omitempty_string ''commonName'' (CommonName m)
            @ omitempty_string ''emailAddress'' (EmailAddress m)
            @ omitempty_string ''serialNumber'' (SerialNumber m))"

definition Marshal_Mandatee :: "Mandatee \<Rightarrow> json" where
  "Marshal_Mandatee m =
     JObject (omitempty_string ''firstName'' (MandateeFirstName m)
            @ omitempty_string ''lastName'' (MandateeLastName m)
            @ omitempty_string ''nationality'' (Nationality m)
            @ omitempty_string ''email'' (MandateeEmail m))"

definition Marshal_Payload :: "Payload \<Rightarrow> json" where
  "Marshal_Payload p =
     JObject ([(''mandator'', Marshal_Mandator (PayloadMandator p)),
               (''mandatee'', Marshal_Mandatee (PayloadMandatee p))]
            @ omitempty_slice ''power'' (PayloadPower p)
                (\<lambda>ps. JArray (map Marshal_Power (elems ps))))"

definition Marshal :: "LEARIssuanceRequestBody \<Rightarrow> json" where
  "Marshal r =
     JObject (omitempty_string ''schema'' (Schema r)
            @ omitempty_string ''operation_mode'' (OperationMode r)
            @ omitempty_string ''format'' (Format r)
            @ omitempty_string ''response_uri'' (ResponseUri r)
            @ [(''payload'', Marshal_Payload (Payload r))])"

subsection \<open>Parsing: \<open>json.Unmarshal\<close> into these structs\<close>

text \<open>
  As documented for \<open>encoding/json\<close>. A member of an object goes to the field whose tag
  name equals its key up to case folding (no two fields of one struct here fold to the
  same name); other members are skipped. \<open>null\<close> leaves a string or a struct as it is
  and makes a slice nil. A JSON string goes into a Go \<open>string\<close>, an array into a slice,
  which is emptied and then gets one element per member of the array, an object into a
  struct; every other combination is an \<open>UnmarshalTypeError\<close> with the kind of the JSON
  value and the Go type. \<open>Strings\<close> has no \<open>UnmarshalJSON\<close>, so it is read as the
  \<open>[]string\<close> it is. The first error in the order of the document is the one returned.
\<close>

datatype json_error =
    SyntaxError
  | UnmarshalTypeError string string

fun kind :: "json \<Rightarrow> string" where
  "kind JNull = ''null''"
| "kind (JBool b) = ''bool''"
| "kind (JNumber n) = ''number''"
| "kind (JString s) = ''string''"
| "kind (JArray vs) = ''array''"
| "kind (JObject kvs) = ''object''"

text \<open>
  Case folding of a key: ASCII letters to capitals; the two other runes that fold to an
  ASCII letter are U+017F (bytes C5 BF, with \<open>S\<close>) and U+212A (bytes E2 84 AA, with \<open>K\<close>).
\<close>

definition upper_byte :: "char \<Rightarrow> char" where
  "upper_byte c =
     (if between (CHR ''a'') (CHR ''z'') c then char_of (of_char c - (32::nat)) else c)"

fun foldName :: "string \<Rightarrow> string" where
  "foldName (a # b # c # cs) =
     (if a = CHR 0xE2 \<and> b = CHR 0x84 \<and> c = CHR 0xAA then CHR ''K'' # foldName cs
      else if a = CHR 0xC5 \<and> b = CHR 0xBF then CHR ''S'' # foldName (c # cs)
      else upper_byte a # foldName (b # c # cs))"
| "foldName [a, b] =
     (if a = CHR 0xC5 \<and> b = CHR 0xBF then [CHR ''S''] else [upper_byte a, upper_byte b])"
| "foldName [a] = [upper_byte a]"
| "foldName [] = []"

definition is_field :: "string \<Rightarrow> string \<Rightarrow> bool" where
  "is_field key name = (foldName key = foldName name)"

definition and_then :: "'e + 'a \<Rightarrow> ('a \<Rightarrow> 'b) \<Rightarrow> 'e + 'b" where
  "and_then r f = (case r of Inl e \<Rightarrow> Inl e | Inr x \<Rightarrow> Inr (f x))"

fun decode_string :: "json \<Rightarrow> string \<Rightarrow> json_error + string" where
  "decode_string (JString s) cur = Inr s"
| "decode_string JNull cur = Inr cur"
| "decode_string v cur = Inl (UnmarshalTypeError (kind v) ''string'')"

fun decode_each :: "(json \<Rightarrow> json_error + 'a) \<Rightarrow> json list \<Rightarrow> json_error + 'a list" where
  "decode_each dec [] = Inr []"
| "decode_each dec (v # vs) =
     (case dec v of
        Inl e \<Rightarrow> Inl e
      | Inr x \<Rightarrow> and_then (decode_each dec vs) (\<lambda>xs. x # xs))"

fun decode_slice ::
  "string \<Rightarrow> (json \<Rightarrow> json_error + 'a) \<Rightarrow> json \<Rightarrow> json_error + 'a slice" where
  "decode_slice ty dec (JArray vs) = and_then (decode_each dec vs) Slice"
| "decode_slice ty dec JNull = Inr NilSlice"
| "decode_slice ty dec v = Inl (UnmarshalTypeError (kind v) ty)"

fun decode_members ::
  "(string \<Rightarrow> json \<Rightarrow> 'a \<Rightarrow> json_error + 'a) \<Rightarrow> (string \<times> json) list \<Rightarrow> 'a \<Rightarrow> json_error + 'a" where
  "decode_members field [] x = Inr x"
| "decode_members field ((key, v) # kvs) x =
     (case field key v x of
        Inl e \<Rightarrow> Inl e
      | Inr x' \<Rightarrow> decode_members field kvs x')"

fun decode_struct ::
  "string \<Rightarrow> (string \<Rightarrow> json \<Rightarrow> 'a \<Rightarrow> json_error + 'a) \<Rightarrow> json \<Rightarrow> 'a \<Rightarrow> json_error + 'a" where
  "decode_struct ty field (JObject kvs) x = decode_members field kvs x"
| "decode_struct ty field JNull x = Inr x"
| "decode_struct ty field v x = Inl (UnmarshalTypeError (kind v) ty)"

definition Mandator_field :: "string \<Rightarrow> json \<Rightarrow> Mandator \<Rightarrow> json_error + Mandator" where
  "Mandator_field key v m =
     (if is_field key ''organizationIdentifier'' then
        and_then (decode_string v (OrganizationIdentifier m)) (\<lambda>s. m\<lparr>OrganizationIdentifier := s\<rparr>)
      else if is_field key ''organization'' then
        and_then (decode_string v (Organization m)) (\<lambda>s. m\<lparr>Organization := s\<rparr>)
      else if is_field key ''country'' then
        and_then (decode_string v (MandatorCountry m)) (\<lambda>s. m\<lparr>MandatorCountry := s\<rparr>)
      else if is_field key ''commonName'' then
        and_then (decode_string v (CommonName m)) (\<lambda>s. m\<lparr>CommonName := s\<rparr>)
      else if is_field key ''emailAddress'' then
        and_then (decode_string v (EmailAddress m)) (\<lambda>s. m\<lparr>EmailAddress := s\<rparr>)
      else if is_field key ''serialNumber'' then
        and_then (decode_string v (SerialNumber m)) (\<lambda>s. m\<lparr>SerialNumber := s\<rparr>)
      else Inr m)"

definition Mandatee_field :: "string \<Rightarrow> json \<Rightarrow> Mandatee \<Rightarrow> json_error + Mandatee" where
  "Mandatee_field key v m =
     (if is_field key ''firstName'' then
        and_then (decode_string v (MandateeFirstName m)) (\<lambda>s. m\<lparr>MandateeFirstName := s\<rparr>)
      else if is_field key ''lastName'' then
        and_then (decode_string v (MandateeLastName m)) (\<lambda>s. m\<lparr>MandateeLastName := s\<rparr>)
      else if is_field key ''nationality'' then
        and_then (decode_string v (Nationality m)) (\<lambda>s. m\<lparr>Nationality := s\<rparr>)
      else if is_field key ''email'' then
        and_then (decode_string v (MandateeEmail m)) (\<lambda>s. m\<lparr>MandateeEmail := s\<rparr>)
      else Inr m)"

definition Power_field :: "string \<Rightarrow> json \<Rightarrow> Power \<Rightarrow> json_error + Power" where
  "Power_field key v p =
     (if is_field key ''type'' then
        and_then (decode_string v (PowerType p)) (\<lambda>s. p\<lparr>PowerType := s\<rparr>)
      else if is_field key ''domain'' then
        and_then (decode_string v (PowerDomain p)) (\<lambda>s. p\<lparr>PowerDomain := s\<rparr>)
      else if is_field key ''function'' then
        and_then (decode_string v (PowerFunction p)) (\<lambda>s. p\<lparr>PowerFunction := s\<rparr>)
      else if is_field key ''action'' then
        and_then (decode_slice ''credissuance.Strings'' (\<lambda>e. decode_string e []) v)
          (\<lambda>a. p\<lparr>Action := a\<rparr>)
      else Inr p)"

definition zero_Power :: Power where
  "zero_Power = \<lparr>PowerType = [], PowerDomain = [], PowerFunction = [], Action = NilSlice\<rparr>"

definition zero_Mandator :: Mandator where
  "zero_Mandator =
     \<lparr>OrganizationIdentifier = [], Organization = [], MandatorCountry = [], CommonName = [],
      EmailAddress = [], SerialNumber = []\<rparr>"

definition zero_Mandatee :: Mandatee where
  "zero_Mandatee =
     \<lparr>MandateeFirstName = [], MandateeLastName = [], Nationality = [], MandateeEmail = []\<rparr>"

definition zero_Body :: LEARIssuanceRequestBody where
  "zero_Body =
     \<lparr>Schema = [], OperationMode = [], Format = [], ResponseUri = [],
      Payload = \<lparr>PayloadMandator = zero_Mandator, PayloadMandatee = zero_Mandatee,
                 PayloadPower = NilSlice\<rparr>\<rparr>"

definition Payload_field :: "string \<Rightarrow> json \<Rightarrow> Payload \<Rightarrow> json_error + Payload" where
  "Payload_field key v p =
     (if is_field key ''mandator'' then
        and_then (decode_struct ''credissuance.Mandator'' Mandator_field v (PayloadMandator p))
          (\<lambda>m. p\<lparr>PayloadMandator := m\<rparr>)
      else if is_field key ''mandatee'' then
        and_then (decode_struct ''credissuance.Mandatee'' Mandatee_field v (PayloadMandatee p))
          (\<lambda>m. p\<lparr>PayloadMandatee := m\<rparr>)
      else if is_field key ''power'' then
        and_then (decode_slice ''[]credissuance.Power''
                    (\<lambda>e. decode_struct ''credissuance.Power'' Power_field e zero_Power) v)
          (\<lambda>ps. p\<lparr>PayloadPower := ps\<rparr>)
      else Inr p)"

definition Body_field ::
  "string \<Rightarrow> json \<Rightarrow> LEARIssuanceRequestBody \<Rightarrow> json_error + LEARIssuanceRequestBody" where
  "Body_field key v r =
     (if is_field key ''schema'' then
        and_then (decode_string v (Schema r)) (\<lambda>s. r\<lparr>Schema := s\<rparr>)
      else if is_field key ''operation_mode'' then
        and_then (decode_string v (OperationMode r)) (\<lambda>s. r\<lparr>OperationMode := s\<rparr>)
      else if is_field key ''format'' then
        and_then (decode_string v (Format r)) (\<lambda>s. r\<lparr>Format := s\<rparr>)
      else if is_field key ''response_uri'' then
        and_then (decode_string v (ResponseUri r)) (\<lambda>s. r\<lparr>ResponseUri := s\<rparr>)
      else if is_field key ''payload'' then
        and_then (decode_struct ''credissuance.Payload'' Payload_field v (Payload r))
          (\<lambda>p. r\<lparr>Payload := p\<rparr>)
      else Inr r)"

text \<open>
  \<open>ParseLEARIssuanceRequestBody body\<close>: \<open>body\<close> is the document the bytes are, \<open>None\<close>
  when they are not JSON (\<open>json.Unmarshal\<close> returns a \<open>SyntaxError\<close>).
\<close>

definition ParseLEARIssuanceRequestBody ::
  "json option \<Rightarrow> json_error + LEARIssuanceRequestBody" where
  "ParseLEARIssuanceRequestBody body =
     (case body of
        None \<Rightarrow> Inl SyntaxError
      | Some v \<Rightarrow> decode_struct ''credissuance.LEARIssuanceRequestBody'' Body_field v zero_Body)"

text \<open>The two sample requests of the package.\<close>

definition Cred1 :: LEARIssuanceRequestBody where
  "Cred1 =
     \<lparr>Schema = ''LEARCredentialEmployee'', OperationMode = ''S'', Format = ''jwt_vc_json'',
      ResponseUri = [],
      Payload =
        \<lparr>PayloadMandator =
           \<lparr>OrganizationIdentifier = ''VATES-123456'', Organization = ''Test Organization'',
            MandatorCountry = ''ES'', CommonName = ''Test User'',
            EmailAddress = ''jesus@alastria.io'', SerialNumber = []\<rparr>,
         PayloadMandatee =
           \<lparr>MandateeFirstName = ''Test'', MandateeLastName = ''User'', Nationality = ''ES'',
            MandateeEmail = ''jesus@alastria.io''\<rparr>,
         PayloadPower =
           Slice [\<lparr>PowerType = ''domain'', PowerDomain = ''DOME'',
                   PowerFunction = ''Onboarding'', Action = Slice [''execute'']\<rparr>]\<rparr>\<rparr>"

definition Cred2 :: LEARIssuanceRequestBody where
  "Cred2 =
     \<lparr>Schema = ''LEARCredentialEmployee'', OperationMode = ''S'', Format = ''jwt_vc_json'',
      ResponseUri = [],
      Payload =
        \<lparr>PayloadMandator = zero_Mandator,
         PayloadMandatee = zero_Mandatee,
         PayloadPower =
           Slice [\<lparr>PowerType = ''domain'', PowerDomain = ''DOME'',
                   PowerFunction = ''Onboarding'', Action = Slice [''execute'']\<rparr>]\<rparr>\<rparr>"

section \<open>The issuance client (package credissuance)\<close>

subsection \<open>Deriving the did:key\<close>

definition fromHexChar :: "char \<Rightarrow> nat option" where
  "fromHexChar c =
     (if between (CHR ''0'') (CHR ''9'') c then Some (of_char c - 48)
      else if between (CHR ''a'') (CHR ''f'') c then Some (of_char c - 87)
      else if between (CHR ''A'') (CHR ''F'') c then Some (of_char c - 55)
      else None)"

text \<open>
  \<open>hex.DecodeString\<close> with its error dropped, as \<open>NewLEARIssuance\<close> calls it: the bytes
  of the pairs of hexadecimal digits before the first character that is not one.
\<close>

fun hex_DecodeString :: "string \<Rightarrow> byte list" where
  "hex_DecodeString (p # q # rest) =
     (case (fromHexChar p, fromHexChar q) of
        (Some a, Some b) \<Rightarrow> of_nat (a * 16 + b) # hex_DecodeString rest
      | _ \<Rightarrow> [])"
| "hex_DecodeString [p] = []"
| "hex_DecodeString [] = []"

definition TrimPrefix :: "string \<Rightarrow> string \<Rightarrow> string" where
  "TrimPrefix s pre = (if take (length pre) s = pre then drop (length pre) s else s)"

text \<open>
  \<open>base58.Encode\<close>: the bytes are a number, most significant byte first, written in
  base 58 with the Bitcoin alphabet; every leading zero byte gives a leading \<open>1\<close>.
\<close>

definition alphabet58 :: string where
  "alphabet58 = ''123456789ABCDEFGHJKLMNPQRSTUVWXYZabcdefghijkmnopqrstuvwxyz''"

definition number_of_bytes :: "byte list \<Rightarrow> nat" where
  "number_of_bytes bs = foldl (\<lambda>n b. 256 * n + unat b) 0 bs"

fun digits58 :: "nat \<Rightarrow> string" where
  "digits58 n = (if n = 0 then [] else digits58 (n div 58) @ [alphabet58 ! (n mod 58)])"

declare digits58.simps [simp del]

definition base58_Encode :: "byte list \<Rightarrow> string" where
  "base58_Encode bs =
     replicate (length (takeWhile (\<lambda>b. b = 0) bs)) (CHR ''1'') @ digits58 (number_of_bytes bs)"

text \<open>
  The identifier \<open>NewLEARIssuance\<close> computes in its variable \<open>didKey\<close> from the
  uncompressed public key (65 bytes: the byte 4, X, Y).
\<close>

definition didKey :: "byte list \<Rightarrow> string" where
  "didKey uncompressed =
     (let xBytes = take 32 (drop 1 uncompressed);
          yLastByte = uncompressed ! 64;
          compressedPrefix = (if yLastByte mod 2 \<noteq> 0 then 0x03 else 0x02);
          compressedBytes = compressedPrefix # xBytes;
          varintPrefix = [0x80, 0x24]
      in ''did:key:z'' @ base58_Encode (varintPrefix @ compressedBytes))"

subsection \<open>Constructing the client\<close>

text \<open>The fields of \<open>EnvConfig\<close> that \<open>NewLEARIssuance\<close> reads.\<close>

record EnvConfig =
  PrivateKeyFile :: string
  MachineCredentialFile :: string
  MyDidkey :: string
  Verifier_URL :: string
  Verifier_TokenEndpoint :: string
  Issuer_CredentialIssuancePath :: string

record 'k LEARIssuance =
  privateKey :: 'k
  machineCredential :: string
  verifierTokenEndpoint :: string
  verifierURL :: string
  myDidkey :: string
  credentialIssuancePath :: string

text \<open>
  What \<open>NewLEARIssuance\<close> takes from outside the program: the files (\<open>os.ReadFile\<close>) and
  the two functions of \<open>crypto/ecdsa\<close>, on a type \<open>'k\<close> of private keys. Each gives its
  result or the text of its error.
\<close>

record 'k System =
  ReadFile :: "string \<Rightarrow> string + string"
  ParseRawPrivateKey :: "byte list \<Rightarrow> string + 'k"
  PublicKey_Bytes :: "'k \<Rightarrow> string + byte list"

text \<open>
  \<open>IndexOutOfRange\<close> is the panic of \<open>uncompressed[64]\<close> on fewer than 65 bytes (the
  encoding of a P-256 point always has 65); \<open>DidKeyMismatch\<close> is the error
  \<open>the private key does not correspond to the did:key in the configuration\<close>.
\<close>

datatype new_error =
    ReadFileError string
  | PrivateKeyError string
  | PublicKeyError string
  | IndexOutOfRange
  | DidKeyMismatch

definition NewLEARIssuance :: "'k System \<Rightarrow> EnvConfig \<Rightarrow> new_error + 'k LEARIssuance" where
  "NewLEARIssuance sys config =
     (case ReadFile sys (PrivateKeyFile config) of
        Inl m \<Rightarrow> Inl (ReadFileError m)
      | Inr pemBytesRaw \<Rightarrow>
          let hexKey = TrimPrefix (TrimPrefix pemBytesRaw ''0x'') ''0X'';
              dBytes = hex_DecodeString hexKey
          in case ParseRawPrivateKey sys dBytes of
               Inl m \<Rightarrow> Inl (PrivateKeyError m)
             | Inr key \<Rightarrow>
                 (case PublicKey_Bytes sys key of
                    Inl m \<Rightarrow> Inl (PublicKeyError m)
                  | Inr uncompressed \<Rightarrow>
                      if length uncompressed < 65 then Inl IndexOutOfRange
                      else if didKey uncompressed \<noteq> MyDidkey config then Inl DidKeyMismatch
                      else (case ReadFile sys (MachineCredentialFile config) of
                              Inl m \<Rightarrow> Inl (ReadFileError m)
                            | Inr buf \<Rightarrow>
                                Inr \<lparr>privateKey = key,
                                     machineCredential = buf,
                                     verifierTokenEndpoint = Verifier_TokenEndpoint config,
                                     verifierURL = Verifier_URL config,
                                     myDidkey = MyDidkey config,
                                     credentialIssuancePath =
                                       Issuer_CredentialIssuancePath config\<rparr>)))"

subsection \<open>Requesting a credential\<close>

record HTTPRequest =
  RequestMethod :: string
  RequestURL :: string
  RequestHeader :: "(string \<times> string) list"
  RequestBody :: json

text \<open>\<open>ResponseBody\<close> is what \<open>io.ReadAll(resp.Body)\<close> gives: the bytes, or the text of its error.\<close>

record HTTPResponse =
  StatusCode :: int
  Status :: string
  ResponseBody :: "string + string"

text \<open>
  What \<open>LEARIssuanceRequest\<close> takes from outside: \<open>TokenRequest\<close> (the exchange with the
  Verifier, a function of the package that is not among the sources; it gives the
  access token or the text of its error), whether \<open>http.NewRequest\<close> accepts the URL,
  and \<open>http.DefaultClient.Do\<close>.
\<close>

record 'k Network =
  TokenRequest :: "string \<Rightarrow> string \<Rightarrow> string \<Rightarrow> string \<Rightarrow> 'k \<Rightarrow> string + string"
  NewRequest_accepts :: "string \<Rightarrow> bool"
  Do :: "HTTPRequest \<Rightarrow> string + HTTPResponse"

text \<open>
  \<open>StatusError st\<close> is the error \<open>error calling LEAR Issuance Endpoint: st\<close>.
  \<open>NilRequestPanic\<close> is not a returned error: the error of \<open>http.NewRequest\<close> is
  dropped, so on a URL it rejects \<open>req\<close> is nil and \<open>req.Header.Add\<close> panics.
\<close>

datatype iss_error =
    TokenError string
  | NilRequestPanic
  | TransportError string
  | StatusError string
  | ReadAllError string

fun Error :: "iss_error \<Rightarrow> string" where
  "Error (TokenError m) = m"
| "Error NilRequestPanic = ''runtime error: invalid memory address or nil pointer dereference''"
| "Error (TransportError m) = m"
| "Error (StatusError st) = ''error calling LEAR Issuance Endpoint: '' @ st"
| "Error (ReadAllError m) = m"

definition LEARIssuanceRequest ::
  "'k Network \<Rightarrow> 'k LEARIssuance \<Rightarrow> LEARIssuanceRequestBody \<Rightarrow> iss_error + string" where
  "LEARIssuanceRequest net l learCredData =
     (case TokenRequest net (verifierTokenEndpoint l) (machineCredential l) (myDidkey l)
             (verifierURL l) (privateKey l) of
        Inl m \<Rightarrow> Inl (TokenError m)
      | Inr access_token \<Rightarrow>
          let buf = Marshal learCredData
          in if \<not> NewRequest_accepts net (credentialIssuancePath l) then Inl NilRequestPanic
             else
               let req = \<lparr>RequestMethod = ''POST'',
                          RequestURL = credentialIssuancePath l,
                          RequestHeader = [(''Content-Type'', ''application/json''),
                                           (''Authorization'', ''Bearer '' @ access_token)],
                          RequestBody = buf\<rparr>
               in case Do net req of
                    Inl m \<Rightarrow> Inl (TransportError m)
                  | Inr resp \<Rightarrow>
                      if StatusCode resp < 200 \<or> StatusCode resp > 399 then
                        Inl (StatusError (Status resp))
                      else (case ResponseBody resp of
                              Inl m \<Rightarrow> Inl (ReadAllError m)
                            | Inr body \<Rightarrow> Inr body))"

section \<open>Registration (package server, \<open>HandleRegister\<close>)\<close>

record RegistrationRequest =
  FirstName :: string
  LastName :: string
  CompanyName :: string
  Country :: string
  VatId :: string
  Email :: string
  Website :: string

definition Countries :: "(string \<times> string) list" where
  "Countries =
     [(''US'', ''United States''), (''GB'', ''United Kingdom''), (''CA'', ''Canada''),
      (''AU'', ''Australia''), (''DE'', ''Germany''), (''FR'', ''France''), (''ES'', ''Spain''),
      (''IT'', ''Italy''), (''NL'', ''Netherlands''), (''BE'', ''Belgium''),
      (''CH'', ''Switzerland''), (''AT'', ''Austria''), (''SE'', ''Sweden''), (''NO'', ''Norway''),
      (''DK'', ''Denmark''), (''FI'', ''Finland''), (''IE'', ''Ireland''), (''PT'', ''Portugal''),
      (''GR'', ''Greece''), (''LU'', ''Luxembourg''), (''JP'', ''Japan''), (''CN'', ''China''),
      (''IN'', ''India''), (''BR'', ''Brazil''), (''MX'', ''Mexico''), (''ZA'', ''South Africa''),
      (''AE'', ''United Arab Emirates''), (''SG'', ''Singapore''), (''KR'', ''South Korea''),
      (''NZ'', ''New Zealand'')]"

definition IsValidCountry :: "string \<Rightarrow> bool" where
  "IsValidCountry code = list_ex (\<lambda>c. fst c = code) Countries"

text \<open>\<open>Validate\<close> gives the text of its error, \<open>None\<close> for \<open>nil\<close>.\<close>

definition Validate :: "RegistrationRequest \<Rightarrow> string option" where
  "Validate s =
     (if FirstName s = [] then Some ''first name is required''
      else if LastName s = [] then Some ''last name is required''
      else if CompanyName s = [] then Some ''company name is required''
      else if Country s = [] then Some ''country is required''
      else if \<not> IsValidCountry (Country s) then Some ''invalid country code''
      else if VatId s = [] then Some ''VAT ID is required''
      else if Email s = [] then Some ''email is required''
      else if \<not> isValidEmail (Email s) then Some ''invalid email address format''
      else None)"

section \<open>The mail service (package mail)\<close>

record SMTPConfig =
  Enabled :: bool
  Host :: string
  Port :: int
  TLS :: bool
  Username :: string
  PasswordFile :: string

text \<open>The struct \<open>mail.Service\<close>; its field \<open>runtime\<close> is \<open>mail_runtime\<close> here.\<close>

record MailService =
  mail_runtime :: RuntimeEnv
  onboardTeamEmail :: "string list"
  issuerTeamEmail :: "string list"
  ccTeamEmail :: "string list"
  smtpConfig :: SMTPConfig
  password :: string

text \<open>
  A value of the template data: a string, or the text \<open>json.MarshalIndent\<close> gives for a
  document.
\<close>

datatype template_value = Str string | Indented json

text \<open>
  One SMTP exchange as the service starts it: the address \<open>host:port\<close>, the plain
  authentication (user, password, host), the sender, the recipients and the message.
\<close>

record delivery =
  addr :: string
  auth :: "string \<times> string \<times> string"
  sender :: string
  recipients :: "string list"
  msg :: string

text \<open>The steps of the exchange the service runs by hand on port 465, by the error each wraps.\<close>

datatype smtp_step = Dial | NewClient | Auth | MailFrom | Rcpt | Data | Write | Close

fun step_text :: "smtp_step \<Rightarrow> string" where
  "step_text Dial = ''failed to dial TLS: ''"
| "step_text NewClient = ''failed to create SMTP client: ''"
| "step_text Auth = ''failed to authenticate: ''"
| "step_text MailFrom = ''failed to set sender: ''"
| "step_text Rcpt = ''failed to add recipient: ''"
| "step_text Data = ''failed to open data writer: ''"
| "step_text Write = ''failed to write message: ''"
| "step_text Close = ''failed to close data writer: ''"

text \<open>
  What the mail service takes from outside: \<open>template.ParseFiles\<close> (the template, or
  the text of its error), \<open>ExecuteTemplate\<close> (the body, or the text of its error),
  \<open>smtp.SendMail\<close> (\<open>None\<close> for \<open>nil\<close>, or the text of its error) and the exchange on
  port 465 (\<open>None\<close>, or the step that failed and the text of its error).
\<close>

record Post =
  ParseFiles :: "string \<Rightarrow> string + string"
  ExecuteTemplate :: "string \<Rightarrow> string \<Rightarrow> (string \<rightharpoonup> template_value) \<Rightarrow> string + string"
  SendMail :: "delivery \<Rightarrow> string option"
  Exchange465 :: "delivery \<Rightarrow> (smtp_step \<times> string) option"

text \<open>A call of the service returns its \<open>error\<close> (\<open>None\<close> for \<open>nil\<close>), or panics.\<close>

datatype call = Returns "string option" | Panics

definition newline :: char where
  "newline = CHR 0x0A"

fun Join :: "string list \<Rightarrow> string \<Rightarrow> string" where
  "Join [] sep = []"
| "Join [x] sep = x"
| "Join (x # y # xs) sep = x @ sep @ Join (y # xs) sep"

text \<open>\<open>fmt.Sprintf("%d", i)\<close>.\<close>

fun decimal :: "nat \<Rightarrow> string" where
  "decimal n =
     (if n < 10 then [char_of (48 + n)] else decimal (n div 10) @ [char_of (48 + n mod 10)])"

declare decimal.simps [simp del]

definition Sprintf_d :: "int \<Rightarrow> string" where
  "Sprintf_d i = (if i < 0 then CHR ''-'' # decimal (nat (- i)) else decimal (nat i))"

definition mime :: string where
  "mime = ''MIME-version: 1.0;'' @ [newline]
        @ ''Content-Type: text/html; charset=\"UTF-8\";'' @ [newline, newline]"

text \<open>
  The part \<open>SendWelcomeEmail\<close> and \<open>SendIssuerError\<close> have in common, from \<open>from\<close> on:
  the message is put together and handed to SMTP. The exchange it starts is added to
  the exchanges started so far, whatever its outcome.
\<close>

definition transmit ::
  "Post \<Rightarrow> MailService \<Rightarrow> string list \<Rightarrow> string \<Rightarrow> string \<Rightarrow> delivery list
     \<Rightarrow> call \<times> delivery list" where
  "transmit post s to subject body outbox =
     (let from = Username (smtpConfig s);
          message = ''From: '' @ from @ [newline]
                  @ ''To: '' @ Join to '', '' @ [newline]
                  @ ''Subject: '' @ subject @ [newline]
                  @ mime @ body;
          d = \<lparr>addr = Host (smtpConfig s) @ '':'' @ Sprintf_d (Port (smtpConfig s)),
               auth = (Username (smtpConfig s), password s, Host (smtpConfig s)),
               sender = from, recipients = to, msg = message\<rparr>
      in if TLS (smtpConfig s) \<and> Port (smtpConfig s) = 465 then
           (Returns (case Exchange465 post d of
                       None \<Rightarrow> None
                     | Some (step, e) \<Rightarrow> Some (step_text step @ e)),
            outbox @ [d])
         else (Returns (SendMail post d), outbox @ [d]))"

text \<open>
  \<open>SendWelcomeEmail\<close>. With SMTP enabled it reads \<open>s.onboardTeamEmail[0]\<close> for the
  template data: on an empty list the index is out of range and the call panics.
\<close>

definition SendWelcomeEmail ::
  "Post \<Rightarrow> MailService \<Rightarrow> Registration \<Rightarrow> delivery list \<Rightarrow> call \<times> delivery list" where
  "SendWelcomeEmail post s reg outbox =
     (if \<not> Enabled (smtpConfig s) then (Returns None, outbox)
      else if onboardTeamEmail s = [] then (Panics, outbox)
      else
        let data = map_of
              [(''RegistrationID'', Str (registration_id reg)),
               (''Email'', Str (email reg)),
               (''FirstName'', Str (first_name reg)),
               (''LastName'', Str (last_name reg)),
               (''CompanyName'', Str (company_name reg)),
               (''Country'', Str (country reg)),
               (''VatID'', Str (vat_id reg)),
               (''Runtime'', Str (mail_runtime s)),
               (''OnboardTeamEmail'', Str (onboardTeamEmail s ! 0))]
        in case ParseFiles post ''src/email/email_welcome.html'' of
             Inl e \<Rightarrow> (Returns (Some (''failed to parse email template: '' @ e)), outbox)
           | Inr tmpl \<Rightarrow>
               (case ExecuteTemplate post tmpl ''content'' data of
                  Inl e \<Rightarrow> (Returns (Some (''failed to execute email template: '' @ e)), outbox)
                | Inr body \<Rightarrow>
                    transmit post s (email reg # ccTeamEmail s)
                      ''Welcome to DOME Marketplace!'' body outbox))"

definition SendIssuerError ::
  "Post \<Rightarrow> MailService \<Rightarrow> Registration \<Rightarrow> json \<Rightarrow> string \<Rightarrow> delivery list
     \<Rightarrow> call \<times> delivery list" where
  "SendIssuerError post s reg payload errorMsg outbox =
     (if \<not> Enabled (smtpConfig s) then (Returns None, outbox)
      else
        let data = map_of
              [(''FirstName'', Str (first_name reg)),
               (''CompanyName'', Str (company_name reg)),
               (''RegistrationID'', Str (registration_id reg)),
               (''Payload'', Indented payload),
               (''ErrorMsg'', Str errorMsg),
               (''Runtime'', Str (mail_runtime s))]
        in case ParseFiles post ''src/email/issuer_error.html'' of
             Inl e \<Rightarrow> (Returns (Some (''failed to parse email template: '' @ e)), outbox)
           | Inr tmpl \<Rightarrow>
               (case ExecuteTemplate post tmpl ''content'' data of
                  Inl e \<Rightarrow> (Returns (Some (''failed to execute email template: '' @ e)), outbox)
                | Inr body \<Rightarrow>
                    transmit post s (issuerTeamEmail s)
                      ''DOME: Error in Credential Issuer during customer registration''
                      body outbox))"

section \<open>Registration (package server, \<open>HandleRegister\<close>, continued)\<close>

text \<open>
  What one run of \<open>HandleRegister\<close> takes from outside: the value of
  \<open>generateRegistrationID()\<close>, its readings of the clock by the place of the reading,
  the network of the issuance client, what the mail service takes from outside, and
  for each of its two calls of \<open>UpdateRegistrationStatus\<close> whether the statement fails
  there (\<open>None\<close> when it runs, else the text of the driver's error).
\<close>

record 'k World =
  regID :: string
  now_SaveRegistration :: time
  now_AmendRegistration :: time
  now_IssuanceAt :: time
  now_UpdateIssuance :: time
  now_NotifEmailAt :: time
  now_UpdateNotif :: time
  Net :: "'k Network"
  Mailing :: Post
  fault_UpdateIssuance :: "string option"
  fault_UpdateNotif :: "string option"

text \<open>
  A call of \<open>UpdateRegistrationStatus\<close> by the handler. The function sets \<open>UpdatedAt\<close>
  and runs its statement; when the statement fails it returns the driver's error and
  the table is as before.
\<close>

definition exec_UpdateRegistrationStatus ::
  "string option \<Rightarrow> Registration \<Rightarrow> time \<Rightarrow> table
     \<Rightarrow> db_error option \<times> Registration \<times> table" where
  "exec_UpdateRegistrationStatus fault reg0 now db =
     (case fault of
        None \<Rightarrow> UpdateRegistrationStatus reg0 now db
      | Some m \<Rightarrow> (Some (DriverError m), reg0\<lparr>updated_at := now\<rparr>, db))"

text \<open>What the handler can change: the table and the SMTP exchanges started.\<close>

record Backend =
  Table :: table
  Outbox :: "delivery list"

text \<open>The calls the handler makes outside the store, in order.\<close>

datatype effect =
    Called_LEARIssuanceRequest LEARIssuanceRequestBody
  | Called_SendIssuerError Registration json string
  | Called_SendWelcomeEmail Registration

text \<open>
  The end of the handler common to both outcomes of the issuance: the welcome email,
  the update of the status with its result, and the response. A panic of the mail
  service ends the handler: no response is written.
\<close>

definition notify_welcome ::
  "'k World \<Rightarrow> MailService \<Rightarrow> Registration \<Rightarrow> Backend \<Rightarrow> Response option \<times> Backend" where
  "notify_welcome w mail reg st =
     (case SendWelcomeEmail (Mailing w) mail reg (Outbox st) of
        (Panics, box) \<Rightarrow> (None, st\<lparr>Outbox := box\<rparr>)
      | (Returns err, box) \<Rightarrow>
          let regN = (case err of
                        Some m \<Rightarrow> reg\<lparr>notif_email_error := m\<rparr>
                      | None \<Rightarrow> reg\<lparr>notif_email_at := now_NotifEmailAt w,
                                     notif_email_error := []\<rparr>)
          in case exec_UpdateRegistrationStatus (fault_UpdateNotif w) regN
                    (now_UpdateNotif w) (Table st) of
               (updateErr, regU, dbU) \<Rightarrow>
                 (Some (SendJSON 200 True ''Registration successful'' NoData),
                  \<lparr>Table = dbU, Outbox = box\<rparr>))"

text \<open>The two struct literals of \<open>HandleRegister\<close>: the request to the Issuer and the registration.\<close>

definition cred_of :: "RegistrationRequest \<Rightarrow> LEARIssuanceRequestBody" where
  "cred_of requestData =
     \<lparr>Schema = ''LEARCredentialEmployee'', OperationMode = ''S'', Format = ''jwt_vc_json'',
      ResponseUri = [],
      Payload =
        \<lparr>PayloadMandator =
           \<lparr>OrganizationIdentifier = Country requestData @ ''-'' @ VatId requestData,
            Organization = CompanyName requestData,
            MandatorCountry = Country requestData,
            CommonName = FirstName requestData @ '' '' @ LastName requestData,
            EmailAddress = Email requestData,
            SerialNumber = []\<rparr>,
         PayloadMandatee =
           \<lparr>MandateeFirstName = FirstName requestData,
            MandateeLastName = LastName requestData,
            Nationality = Country requestData,
            MandateeEmail = Email requestData\<rparr>,
         PayloadPower =
           Slice [\<lparr>PowerType = ''domain'', PowerDomain = ''DOME'',
                   PowerFunction = ''Onboarding'',
                   Action = Slice [''execute'', ''verify'']\<rparr>]\<rparr>\<rparr>"

text \<open>The fields the literal leaves out are zero: the zero time and the empty string.\<close>

definition reg_of :: "string \<Rightarrow> RegistrationRequest \<Rightarrow> Registration" where
  "reg_of regId requestData =
     \<lparr>registration_id = regId, email = Email requestData,
      first_name = FirstName requestData, last_name = LastName requestData,
      company_name = CompanyName requestData, country = Country requestData,
      vat_id = VatId requestData,
      created_at = 0, updated_at = 0, issuance_at = 0, issuance_error = [],
      notif_email_at = 0, notif_email_error = []\<rparr>"

text \<open>
  \<open>HandleRegister w runtime issuer mail st r\<close> gives the response (\<open>None\<close> when the
  handler panics before writing one), the table with the exchanges started, and the
  calls made. \<open>runtime\<close> is the environment of the store \<open>s.DB\<close>, \<open>issuer\<close> the client
  \<open>s.Issuer\<close>, \<open>mail\<close> the service \<open>s.Mail\<close>. \<open>json.MarshalIndent\<close> gives the document
  \<open>Marshal\<close> gives. The errors of \<open>UpdateRegistrationStatus\<close> and of \<open>SendIssuerError\<close>
  are only logged.
\<close>

definition HandleRegister ::
  "'k World \<Rightarrow> RuntimeEnv \<Rightarrow> 'k LEARIssuance \<Rightarrow> MailService \<Rightarrow> Backend
     \<Rightarrow> RegistrationRequest Request \<Rightarrow> Response option \<times> Backend \<times> effect list" where
  "HandleRegister w runtime issuer mail st r =
     (if Method r \<noteq> ''POST'' then (Some (http_Error ''Method not allowed'' 405), st, [])
      else if \<not> validateCSRF r then
        (Some (SendJSON 403 False ''Security check failed: missing CSRF header'' NoData), st, [])
      else case Body r of
        None \<Rightarrow> (Some (SendJSON 400 False ''Invalid request body'' NoData), st, [])
      | Some requestData \<Rightarrow>
          if Website requestData \<noteq> [] then
            (Some (SendJSON 200 True ''Registration successful'' NoData), st, [])
          else case Validate requestData of
            Some m \<Rightarrow> (Some (SendJSON 400 False m NoData), st, [])
          | None \<Rightarrow>
              let cred = cred_of requestData;
                  reg0 = reg_of (regID w) requestData
              in case SaveRegistration runtime (now_SaveRegistration w)
                        (now_AmendRegistration w) reg0 (Table st) of
                   (Some err, reg1, db1) \<Rightarrow>
                     (Some (SendJSON 500 False ''Failed to save registration'' (ErrorData err)),
                      st\<lparr>Table := db1\<rparr>, [])
                 | (None, reg1, db1) \<Rightarrow>
                     let reg2 = reg1\<lparr>issuance_at := now_IssuanceAt w\<rparr>
                     in case LEARIssuanceRequest (Net w) issuer cred of
                          Inl NilRequestPanic \<Rightarrow>
                            (None, st\<lparr>Table := db1\<rparr>, [Called_LEARIssuanceRequest cred])
                        | Inl issError \<Rightarrow>
                            (case exec_UpdateRegistrationStatus (fault_UpdateIssuance w)
                                    (reg2\<lparr>issuance_error := Error issError\<rparr>)
                                    (now_UpdateIssuance w) db1 of
                               (updateErr, reg3, db2) \<Rightarrow>
                                 let buf = Marshal cred
                                 in case SendIssuerError (Mailing w) mail reg3 buf
                                           (issuance_error reg3) (Outbox st) of
                                      (Panics, box) \<Rightarrow>
                                        (None, \<lparr>Table = db2, Outbox = box\<rparr>,
                                         [Called_LEARIssuanceRequest cred,
                                          Called_SendIssuerError reg3 buf (issuance_error reg3)])
                                    | (Returns mailErr, box) \<Rightarrow>
                                        (case notify_welcome w mail reg3
                                                \<lparr>Table = db2, Outbox = box\<rparr> of
                                           (resp, st3) \<Rightarrow>
                                             (resp, st3,
                                              [Called_LEARIssuanceRequest cred,
                                               Called_SendIssuerError reg3 buf
                                                 (issuance_error reg3),
                                               Called_SendWelcomeEmail reg3])))
                        | Inr body \<Rightarrow>
                            (case exec_UpdateRegistrationStatus (fault_UpdateIssuance w)
                                    (reg2\<lparr>issuance_error := []\<rparr>)
                                    (now_UpdateIssuance w) db1 of
                               (updateErr, reg3, db2) \<Rightarrow>
                                 (case notify_welcome w mail reg3
                                         \<lparr>Table = db2, Outbox = Outbox st\<rparr> of
                                    (resp, st3) \<Rightarrow>
                                      (resp, st3,
                                       [Called_LEARIssuanceRequest cred,
                                        Called_SendWelcomeEmail reg3]))))"

section \<open>Runs and sample values\<close>

text \<open>A run of calls of \<open>VerifyCode\<close>, each with its email and code, from a state.\<close>

definition VerifyCodes ::
  "VerificationCodeEntry Server \<Rightarrow> (string \<times> string) list \<Rightarrow> VerificationCodeEntry Server" where
  "VerifyCodes s calls = foldl (\<lambda>st (e, c). snd (VerifyCode st e c)) s calls"

text \<open>A gate that has stored one code.\<close>

definition gate0 :: "VerificationCodeEntry Server" where
  "gate0 = StoreVerificationCode \<lparr>EmailRateLimiter = Map.empty, VerificationCodes = Map.empty\<rparr>
             ''ana@example.com'' ''123456'' 0"

text \<open>The two responses of \<open>HandleValidateEmail\<close> after its checks of the request.\<close>

definition limited :: Response where
  "limited = SendJSON 429 False ''Too many requests. Please wait a few minutes.'' NoData"

definition code_sent :: "string \<Rightarrow> Response" where
  "code_sent code = SendJSON 200 True ''Validation code sent to your email'' (CodeData code)"

text \<open>A request for a code as the client application sends it.\<close>

definition code_request :: "string \<Rightarrow> string Request" where
  "code_request e = \<lparr>Method = ''POST'', X_Requested_With = ''XMLHttpRequest'', Body = Some e\<rparr>"

definition no_codes :: "string Server" where
  "no_codes = \<lparr>EmailRateLimiter = Map.empty, VerificationCodes = Map.empty\<rparr>"

text \<open>The state after three requests for one address, at 0, 60 and 120 seconds.\<close>

definition after_three :: "string Server" where
  "after_three =
     snd (HandleValidateEmail
       (snd (HandleValidateEmail
         (snd (HandleValidateEmail no_codes (code_request ''ana@example.com'') 0 0 ''111111''))
         (code_request ''ana@example.com'') (60 * Second) (60 * Second) ''222222''))
       (code_request ''ana@example.com'') (120 * Second) (120 * Second) ''333333'')"

text \<open>The columns \<open>UpdateRegistrationStatus\<close> must keep.\<close>

definition same_identity :: "Registration \<Rightarrow> Registration \<Rightarrow> bool" where
  "same_identity a b =
     (registration_id a = registration_id b \<and> email a = email b \<and> first_name a = first_name b
      \<and> last_name a = last_name b \<and> company_name a = company_name b \<and> country a = country b
      \<and> vat_id a = vat_id b \<and> created_at a = created_at b)"

text \<open>What \<open>UpdateRegistrationStatus\<close> and \<open>AmendRegistration\<close> make of one row.\<close>

definition set_status :: "Registration \<Rightarrow> time \<Rightarrow> Registration \<Rightarrow> Registration" where
  "set_status reg now row =
     (if registration_id row = registration_id reg \<and> email row = email reg
      then row\<lparr>updated_at := now, issuance_at := issuance_at reg,
               issuance_error := issuance_error reg, notif_email_at := notif_email_at reg,
               notif_email_error := notif_email_error reg\<rparr>
      else row)"

definition amend_row :: "Registration \<Rightarrow> Registration \<Rightarrow> Registration" where
  "amend_row reg row =
     (if email row = email reg \<and> vat_id row = vat_id reg
      then row\<lparr>registration_id := registration_id reg, first_name := first_name reg,
               last_name := last_name reg, company_name := company_name reg,
               country := country reg, updated_at := updated_at reg,
               issuance_at := issuance_at reg, issuance_error := issuance_error reg,
               notif_email_at := notif_email_at reg,
               notif_email_error := notif_email_error reg\<rparr>
      else row)"

text \<open>The struct as \<open>SaveRegistration\<close> stamps it before it touches the table.\<close>

definition stamped :: "time \<Rightarrow> Registration \<Rightarrow> Registration" where
  "stamped now reg = reg\<lparr>created_at := now, updated_at := now, issuance_at := now,
                        notif_email_at := now, issuance_error := [], notif_email_error := []\<rparr>"

definition ana :: Registration where
  "ana = \<lparr>registration_id = ''20260222-00000001'', email = ''ana@example.com'',
          first_name = ''Ana'', last_name = ''Ruiz'', company_name = ''Acme'', country = ''ES'',
          vat_id = ''B12345678'', created_at = 10, updated_at = 10, issuance_at = 10,
          issuance_error = [], notif_email_at = 10, notif_email_error = []\<rparr>"

definition bea :: Registration where
  "bea = \<lparr>registration_id = ''20260222-00000002'', email = ''bea@example.com'',
          first_name = ''Bea'', last_name = ''Sanz'', company_name = ''Bolt'', country = ''FR'',
          vat_id = ''F87654321'', created_at = 20, updated_at = 20, issuance_at = 20,
          issuance_error = [], notif_email_at = 20, notif_email_error = []\<rparr>"


definition client0 :: "unit LEARIssuance" where
  "client0 = \<lparr>privateKey = (), machineCredential = ''vc'',
              verifierTokenEndpoint = ''https://verifier.example/token'',
              verifierURL = ''https://verifier.example'', myDidkey = ''did:key:zDnae'',
              credentialIssuancePath = ''https://issuer.example/issue''\<rparr>"

text \<open>A network whose Verifier gives a token and whose Issuer answers with a fixed response.\<close>

definition answering :: "int \<Rightarrow> string \<Rightarrow> string \<Rightarrow> unit Network" where
  "answering code st body =
     \<lparr>TokenRequest = (\<lambda>endpoint vc did url key. Inr ''token''),
      NewRequest_accepts = (\<lambda>url. True),
      Do = (\<lambda>req. Inr \<lparr>StatusCode = code, Status = st, ResponseBody = Inr body\<rparr>)\<rparr>"

text \<open>
  Values of a JSON document: \<open>empty_value\<close> is null, the empty string, the empty array
  or the empty object; \<open>blank_value\<close> leaves the empty object out. \<open>key_with p v\<close>:
  somewhere in the document \<open>v\<close>, a key has a value that satisfies \<open>p\<close>.
\<close>

definition empty_value :: "json \<Rightarrow> bool" where
  "empty_value v = (v = JNull \<or> v = JString [] \<or> v = JArray [] \<or> v = JObject [])"

definition blank_value :: "json \<Rightarrow> bool" where
  "blank_value v = (v = JNull \<or> v = JString [] \<or> v = JArray [])"

fun key_with :: "(json \<Rightarrow> bool) \<Rightarrow> json \<Rightarrow> bool"
  and key_with_members :: "(json \<Rightarrow> bool) \<Rightarrow> (string \<times> json) list \<Rightarrow> bool"
  and key_with_items :: "(json \<Rightarrow> bool) \<Rightarrow> json list \<Rightarrow> bool" where
  "key_with p (JObject kvs) = key_with_members p kvs"
| "key_with p (JArray vs) = key_with_items p vs"
| "key_with p JNull = False"
| "key_with p (JBool b) = False"
| "key_with p (JNumber n) = False"
| "key_with p (JString s) = False"
| "key_with_members p [] = False"
| "key_with_members p (kv # kvs) = (p (snd kv) \<or> key_with p (snd kv) \<or> key_with_members p kvs)"
| "key_with_items p [] = False"
| "key_with_items p (v # vs) = (key_with p v \<or> key_with_items p vs)"

text \<open>The value of a key of an object.\<close>

fun field_value :: "string \<Rightarrow> json \<Rightarrow> json option" where
  "field_value key (JObject kvs) = map_of kvs key"
| "field_value key JNull = None"
| "field_value key (JBool b) = None"
| "field_value key (JNumber n) = None"
| "field_value key (JString s) = None"
| "field_value key (JArray vs) = None"

text \<open>The client \<open>NewLEARIssuance\<close> returns.\<close>

definition client_of :: "'k \<Rightarrow> string \<Rightarrow> EnvConfig \<Rightarrow> 'k LEARIssuance" where
  "client_of key buf config =
     \<lparr>privateKey = key, machineCredential = buf,
      verifierTokenEndpoint = Verifier_TokenEndpoint config,
      verifierURL = Verifier_URL config, myDidkey = MyDidkey config,
      credentialIssuancePath = Issuer_CredentialIssuancePath config\<rparr>"

text \<open>
  A system with the key of \<open>cmd/priv2pem\<close> in its key file, the coordinates of the
  public key of that key on P-256, and a machine credential.
\<close>

definition X0 :: "byte list" where
  "X0 = [0xf8, 0xcd, 0xc5, 0x89, 0x65, 0x77, 0x18, 0x29, 0x12, 0xe8, 0xc9, 0xc2, 0x19, 0x6b,
         0x26, 0x26, 0x2b, 0xf6, 0x4e, 0x60, 0xbb, 0x2e, 0x76, 0x62, 0x2d, 0x73, 0x88, 0x75,
         0xec, 0x62, 0xe7, 0x7a]"

definition Y0 :: "byte list" where
  "Y0 = [0xe1, 0xea, 0xbd, 0xfc, 0x5e, 0x39, 0x1e, 0xcb, 0x0a, 0x50, 0x44, 0x82, 0x0c, 0x72,
         0xec, 0x24, 0x62, 0x54, 0x5f, 0x85, 0x9d, 0x83, 0xeb, 0x28, 0xad, 0x03, 0x59, 0x47,
         0xc6, 0xe1, 0x50, 0xd8]"

definition pub0 :: "byte list" where
  "pub0 = 4 # X0 @ Y0"

definition files0 :: "string \<Rightarrow> string + string" where
  "files0 path =
     (if path = ''key.hex'' then
        Inr ''0x0826f120c769d4de55ad686b31c60242d87615a2bb25f53c07b580d9e7a074af''
      else if path = ''machine.vc'' then Inr ''eyJ''
      else Inl ''no such file or directory'')"

definition sys0 :: "byte list System" where
  "sys0 = \<lparr>ReadFile = files0, ParseRawPrivateKey = Inr, PublicKey_Bytes = (\<lambda>key. Inr pub0)\<rparr>"

definition config0 :: "string \<Rightarrow> EnvConfig" where
  "config0 credfile =
     \<lparr>PrivateKeyFile = ''key.hex'', MachineCredentialFile = credfile,
      MyDidkey = ''did:key:zDnaehBC97ZSEc6cwHLXXr6Zfrj1Tv9bxtsuFGPkxcXMj6FaZ'',
      Verifier_URL = ''https://verifier.example'',
      Verifier_TokenEndpoint = ''https://verifier.example/token'',
      Issuer_CredentialIssuancePath = ''https://issuer.example/issue''\<rparr>"

text \<open>The response of \<open>HandleRegister\<close> to a registration it accepts.\<close>

definition success :: Response where
  "success = SendJSON 200 True ''Registration successful'' NoData"

text \<open>
  The submission of the specification's scenario; a world whose Issuer answers 500, whose
  templates render and whose SMTP server accepts, with a store that works or whose
  connection fails at both updates of the status; and two mail services: one with a team
  address, one with SMTP enabled and no team address.
\<close>

definition applicant :: "string \<Rightarrow> RegistrationRequest" where
  "applicant site =
     \<lparr>FirstName = ''Ana'', LastName = ''Ruiz'', CompanyName = ''Acme'', Country = ''ES'',
      VatId = ''B12345678'', Email = ''ana@example.com'', Website = site\<rparr>"

definition submission :: "string \<Rightarrow> RegistrationRequest Request" where
  "submission site =
     \<lparr>Method = ''POST'', X_Requested_With = ''XMLHttpRequest'', Body = Some (applicant site)\<rparr>"

definition post0 :: Post where
  "post0 =
     \<lparr>ParseFiles = (\<lambda>path. Inr path),
      ExecuteTemplate = (\<lambda>tmpl name data. Inr ''<p>mail</p>''),
      SendMail = (\<lambda>d. None),
      Exchange465 = (\<lambda>d. None)\<rparr>"

definition world500 :: "string option \<Rightarrow> unit World" where
  "world500 fault =
     \<lparr>regID = ''20260222-12345678'', now_SaveRegistration = 1, now_AmendRegistration = 2,
      now_IssuanceAt = 3, now_UpdateIssuance = 4, now_NotifEmailAt = 5, now_UpdateNotif = 6,
      Net = answering 500 ''500 Internal Server Error'' ''no'',
      Mailing = post0,
      fault_UpdateIssuance = fault, fault_UpdateNotif = fault\<rparr>"

definition mail0 :: "string list \<Rightarrow> MailService" where
  "mail0 team =
     \<lparr>mail_runtime = Development, onboardTeamEmail = team,
      issuerTeamEmail = [''issuer-team@example.com''], ccTeamEmail = [],
      smtpConfig = \<lparr>Enabled = True, Host = ''smtp.example.com'', Port = 587, TLS = True,
                     Username = ''onboarding@example.com'', PasswordFile = ''smtp.pw''\<rparr>,
      password = ''secret''\<rparr>"

definition empty_backend :: Backend where
  "empty_backend = \<lparr>Table = [], Outbox = []\<rparr>"

text \<open>What \<open>notify_welcome\<close> makes of the struct, by the result of the mail service.\<close>

definition notified :: "'k World \<Rightarrow> string option \<Rightarrow> Registration \<Rightarrow> Registration" where
  "notified w err reg =
     (case err of
        Some m \<Rightarrow> reg\<lparr>notif_email_error := m\<rparr>
      | None \<Rightarrow> reg\<lparr>notif_email_at := now_NotifEmailAt w, notif_email_error := []\<rparr>)"

text \<open>The table after an update of the status at the handler, by the state of the connection.\<close>

definition updated :: "string option \<Rightarrow> Registration \<Rightarrow> time \<Rightarrow> table \<Rightarrow> table" where
  "updated fault reg now db = (case fault of None \<Rightarrow> map (set_status reg now) db | Some m \<Rightarrow> db)"

text \<open>
  What parsing gives for a request it accepts: an empty slice comes back as the nil slice
  (its member is left out of the wire form).
\<close>

definition normal_action :: "string slice \<Rightarrow> string slice" where
  "normal_action a = (if len a = 0 then NilSlice else a)"

definition normal_power :: "Power \<Rightarrow> Power" where
  "normal_power p = p\<lparr>Action := normal_action (Action p)\<rparr>"

definition normal_body :: "LEARIssuanceRequestBody \<Rightarrow> LEARIssuanceRequestBody" where
  "normal_body r =
     r\<lparr>Payload := (Payload r)\<lparr>PayloadPower :=
         (if len (PayloadPower (Payload r)) = 0 then NilSlice
          else Slice (map normal_power (elems (PayloadPower (Payload r)))))\<rparr>\<rparr>"

definition zero_Payload :: Payload where
  "zero_Payload = \<lparr>PayloadMandator = zero_Mandator, PayloadMandatee = zero_Mandatee,
                    PayloadPower = NilSlice\<rparr>"

section \<open>Properties\<close>

subsection \<open>The verification gate\<close>

lemma VerifyCode_absent:
  "VerificationCodes s e = None \<Longrightarrow> VerificationCodes (snd (VerifyCode s e' c')) e = None"
  by (simp add: VerifyCode_def split: option.splits)

lemma VerifyCodes_absent:
  "VerificationCodes s e = None \<Longrightarrow> VerificationCodes (VerifyCodes s calls) e = None"
proof (induction calls arbitrary: s)
  case Nil
  then show ?case by (simp add: VerifyCodes_def)
next
  case (Cons call calls)
  obtain e' c' where call: "call = (e', c')" by (cases call)
  have "VerificationCodes (snd (VerifyCode s e' c')) e = None"
    using Cons.prems by (rule VerifyCode_absent)
  then have "VerificationCodes (VerifyCodes (snd (VerifyCode s e' c')) calls) e = None"
    by (rule Cons.IH)
  then show ?case by (simp add: VerifyCodes_def call)
qed

text \<open>
  Claim C7. \<open>VerifyCode s e c\<close> returns true exactly when the map holds an entry for
  \<open>e\<close> whose code is \<open>c\<close>; then it deletes that entry and changes nothing else;
  otherwise it returns false and leaves the state as it is. After a successful
  verification, whatever calls of \<open>VerifyCode\<close> follow, for any emails and codes, a
  call for \<open>e\<close> returns false for every code. An entry is live as long as it is in
  the map: \<open>VerifyCode\<close> does not look at \<open>CreatedAt\<close>.
\<close>

theorem VerifyCode_consumes_once:
  "(fst (VerifyCode s e c) \<longleftrightarrow> (\<exists>entry. VerificationCodes s e = Some entry \<and> Code entry = c))
   \<and> (fst (VerifyCode s e c) \<longrightarrow>
        snd (VerifyCode s e c) = s\<lparr>VerificationCodes := (VerificationCodes s)(e := None)\<rparr>)
   \<and> (\<not> fst (VerifyCode s e c) \<longrightarrow> snd (VerifyCode s e c) = s)
   \<and> (fst (VerifyCode s e c) \<longrightarrow>
        (\<forall>calls c'. \<not> fst (VerifyCode (VerifyCodes (snd (VerifyCode s e c)) calls) e c')))"
proof (intro conjI impI allI)
  show "fst (VerifyCode s e c) \<longleftrightarrow> (\<exists>entry. VerificationCodes s e = Some entry \<and> Code entry = c)"
    by (simp add: VerifyCode_def split: option.splits)
  show "\<not> fst (VerifyCode s e c) \<Longrightarrow> snd (VerifyCode s e c) = s"
    by (simp add: VerifyCode_def split: option.splits if_splits)
next
  assume ok: "fst (VerifyCode s e c)"
  then show del: "snd (VerifyCode s e c) = s\<lparr>VerificationCodes := (VerificationCodes s)(e := None)\<rparr>"
    by (simp add: VerifyCode_def split: option.splits if_splits)
  fix calls c'
  have "VerificationCodes (snd (VerifyCode s e c)) e = None"
    by (simp add: del)
  then have "VerificationCodes (VerifyCodes (snd (VerifyCode s e c)) calls) e = None"
    by (rule VerifyCodes_absent)
  then show "\<not> fst (VerifyCode (VerifyCodes (snd (VerifyCode s e c)) calls) e c')"
    by (simp add: VerifyCode_def)
qed

theorem VerifyCode_consumes_once_witness:
  "fst (VerifyCode gate0 ''ana@example.com'' ''123456'')
   \<and> \<not> fst (VerifyCode gate0 ''ana@example.com'' ''654321'')
   \<and> snd (VerifyCode gate0 ''ana@example.com'' ''654321'') = gate0
   \<and> VerificationCodes (snd (VerifyCode gate0 ''ana@example.com'' ''123456'')) ''ana@example.com'' = None
   \<and> \<not> fst (VerifyCode (VerifyCodes (snd (VerifyCode gate0 ''ana@example.com'' ''123456''))
                [(''ana@example.com'', ''000000'')]) ''ana@example.com'' ''123456'')"
proof -
  have yes: "fst (VerifyCode gate0 ''ana@example.com'' ''123456'')"
    by (simp add: VerifyCode_def gate0_def StoreVerificationCode_def)
  have no: "\<not> fst (VerifyCode gate0 ''ana@example.com'' ''654321'')"
    by (simp add: VerifyCode_def gate0_def StoreVerificationCode_def)
  note thm1 = VerifyCode_consumes_once [of gate0 "''ana@example.com''" "''123456''"]
  note thm2 = VerifyCode_consumes_once [of gate0 "''ana@example.com''" "''654321''"]
  from thm2 no have same: "snd (VerifyCode gate0 ''ana@example.com'' ''654321'') = gate0"
    by blast
  from thm1 yes have del: "snd (VerifyCode gate0 ''ana@example.com'' ''123456'') =
      gate0\<lparr>VerificationCodes := (VerificationCodes gate0)(''ana@example.com'' := None)\<rparr>"
    by blast
  from thm1 yes have again: "\<not> fst (VerifyCode (VerifyCodes (snd (VerifyCode gate0 ''ana@example.com'' ''123456''))
                [(''ana@example.com'', ''000000'')]) ''ana@example.com'' ''123456'')"
    by blast
  from del have "VerificationCodes (snd (VerifyCode gate0 ''ana@example.com'' ''123456'')) ''ana@example.com'' = None"
    by simp
  with yes no same again show ?thesis by blast
qed

text \<open>The handler does what \<open>VerifyCode\<close> does, on its map of codes.\<close>

lemma HandleVerifyCode_consumes:
  assumes "Method r = ''POST''" and "X_Requested_With r \<noteq> []" and "Body r = Some (e, c)"
  shows "HandleVerifyCode s r =
     (if VerificationCodes s e = Some c
      then (SendJSON 200 True ''Email verified successfully'' NoData,
            s\<lparr>VerificationCodes := (VerificationCodes s)(e := None)\<rparr>)
      else (SendJSON 400 False ''Invalid verification code'' NoData, s))"
  using assms
  by (auto simp: HandleVerifyCode_def validateCSRF_def split: option.splits)

text \<open>What \<open>HandleValidateEmail\<close> does on a well-formed request, by the entry of the limiter.\<close>

lemma HandleValidateEmail_limiter:
  assumes "Method r = ''POST''" and "X_Requested_With r \<noteq> []" and "Body r = Some e"
    and "isValidEmail e" and "e \<noteq> []"
  shows "HandleValidateEmail s r now1 now2 code =
     (case EmailRateLimiter s e of
        Some entry \<Rightarrow>
          if now1 - StartTime entry > 3 * Minute then
            (code_sent code,
             s\<lparr>EmailRateLimiter := (EmailRateLimiter s)(e \<mapsto> \<lparr>Count = 1, StartTime = now2\<rparr>),
               VerificationCodes := (VerificationCodes s)(e \<mapsto> code)\<rparr>)
          else if Count entry \<ge> 3 then (limited, s)
          else
            (code_sent code,
             s\<lparr>EmailRateLimiter := (EmailRateLimiter s)(e \<mapsto> entry\<lparr>Count := Count entry + 1\<rparr>),
               VerificationCodes := (VerificationCodes s)(e \<mapsto> code)\<rparr>)
      | None \<Rightarrow>
          (code_sent code,
           s\<lparr>EmailRateLimiter := (EmailRateLimiter s)(e \<mapsto> \<lparr>Count = 1, StartTime = now2\<rparr>),
             VerificationCodes := (VerificationCodes s)(e \<mapsto> code)\<rparr>))"
  using assms
  by (simp add: HandleValidateEmail_def validateCSRF_def limited_def code_sent_def Let_def
      split: option.splits)

text \<open>
  Claim C6. Take an address \<open>e\<close> and well-formed requests for it (POST, with the
  header, a valid address). A first request at a moment when the limiter holds no
  entry for \<open>e\<close>, or one whose window is over, opens a window at \<open>start\<close>, the time it
  stores. With the second and third request inside the window, all three get a code. A
  fourth request inside the window (at most 3 minutes after \<open>start\<close>) is answered 429
  and changes nothing: the stored code is still the third one. A fourth request more
  than 3 minutes after \<open>start\<close> gets its code, and the entry is reset to count 1.
  \<open>RegisterEmailAttempt\<close> decides the same way (\<open>RegisterEmailAttempt_fourth\<close> below).
\<close>

theorem HandleValidateEmail_fourth_request:
  assumes wellformed: "Method r = ''POST''" "X_Requested_With r \<noteq> []" "Body r = Some e"
      "isValidEmail e" "e \<noteq> []"
    and opens: "EmailRateLimiter s0 e = None \<or>
                (\<exists>entry. EmailRateLimiter s0 e = Some entry \<and> t1 - StartTime entry > 3 * Minute)"
    and r1: "HandleValidateEmail s0 r t1 start c1 = (resp1, s1)"
    and r2: "HandleValidateEmail s1 r t2 u2 c2 = (resp2, s2)"
    and r3: "HandleValidateEmail s2 r t3 u3 c3 = (resp3, s3)"
    and within: "t2 - start \<le> 3 * Minute" "t3 - start \<le> 3 * Minute"
  shows "resp1 = code_sent c1 \<and> resp2 = code_sent c2 \<and> resp3 = code_sent c3
     \<and> (t4 - start \<le> 3 * Minute \<longrightarrow>
          HandleValidateEmail s3 r t4 u4 c4 = (limited, s3)
          \<and> VerificationCodes s3 e = Some c3)
     \<and> (t4 - start > 3 * Minute \<longrightarrow>
          HandleValidateEmail s3 r t4 u4 c4 =
            (code_sent c4,
             s3\<lparr>EmailRateLimiter := (EmailRateLimiter s3)(e \<mapsto> \<lparr>Count = 1, StartTime = u4\<rparr>),
                VerificationCodes := (VerificationCodes s3)(e \<mapsto> c4)\<rparr>))"
proof -
  note step = HandleValidateEmail_limiter [OF wellformed]
  from opens r1 have a1: "resp1 = code_sent c1"
    and e1: "EmailRateLimiter s1 e = Some \<lparr>Count = 1, StartTime = start\<rparr>"
    by (auto simp: step)
  from r2 e1 within(1) have a2: "resp2 = code_sent c2"
    and e2: "EmailRateLimiter s2 e = Some \<lparr>Count = 2, StartTime = start\<rparr>"
    by (auto simp: step)
  from r3 e2 within(2) have a3: "resp3 = code_sent c3"
    and e3: "EmailRateLimiter s3 e = Some \<lparr>Count = 3, StartTime = start\<rparr>"
    and c3: "VerificationCodes s3 e = Some c3"
    by (auto simp: step)
  have late: "t4 - start > 3 * Minute \<Longrightarrow>
          HandleValidateEmail s3 r t4 u4 c4 =
            (code_sent c4,
             s3\<lparr>EmailRateLimiter := (EmailRateLimiter s3)(e \<mapsto> \<lparr>Count = 1, StartTime = u4\<rparr>),
                VerificationCodes := (VerificationCodes s3)(e \<mapsto> c4)\<rparr>)"
    by (simp add: step e3)
  have early: "t4 - start \<le> 3 * Minute \<Longrightarrow> HandleValidateEmail s3 r t4 u4 c4 = (limited, s3)"
    by (simp add: step e3)
  from a1 a2 a3 c3 late early show ?thesis by blast
qed

lemma ana_valid: "isValidEmail ''ana@example.com''"
  by (simp add: isValidEmail_def email_re_def OneOrMore_def lower_az_def digit_09_def
      lower_byte_def between_def)

theorem HandleValidateEmail_fourth_request_witness:
  "HandleValidateEmail after_three (code_request ''ana@example.com'') (150 * Second) (150 * Second)
      ''444444'' = (limited, after_three)
   \<and> VerificationCodes after_three ''ana@example.com'' = Some ''333333''
   \<and> fst (HandleValidateEmail after_three (code_request ''ana@example.com'') (181 * Second)
        (181 * Second) ''444444'') = code_sent ''444444''"
proof -
  let ?r = "code_request ''ana@example.com''"
  let ?s1 = "snd (HandleValidateEmail no_codes ?r 0 0 ''111111'')"
  let ?s2 = "snd (HandleValidateEmail ?s1 ?r (60 * Second) (60 * Second) ''222222'')"
  have wf: "Method ?r = ''POST''" "X_Requested_With ?r \<noteq> []" "Body ?r = Some ''ana@example.com''"
      "isValidEmail ''ana@example.com''" "''ana@example.com'' \<noteq> []"
    by (simp_all add: code_request_def ana_valid)
  have opens: "EmailRateLimiter no_codes ''ana@example.com'' = None \<or>
      (\<exists>entry. EmailRateLimiter no_codes ''ana@example.com'' = Some entry
          \<and> 0 - StartTime entry > 3 * Minute)"
    by (simp add: no_codes_def)
  have r1: "HandleValidateEmail no_codes ?r 0 0 ''111111''
      = (fst (HandleValidateEmail no_codes ?r 0 0 ''111111''), ?s1)"
    by simp
  have r2: "HandleValidateEmail ?s1 ?r (60 * Second) (60 * Second) ''222222''
      = (fst (HandleValidateEmail ?s1 ?r (60 * Second) (60 * Second) ''222222''), ?s2)"
    by simp
  have r3: "HandleValidateEmail ?s2 ?r (120 * Second) (120 * Second) ''333333''
      = (fst (HandleValidateEmail ?s2 ?r (120 * Second) (120 * Second) ''333333''), after_three)"
    by (simp add: after_three_def)
  have within: "60 * Second - 0 \<le> 3 * Minute" "120 * Second - 0 \<le> 3 * Minute"
    by (simp_all add: Minute_def Second_def)
  note fourth = HandleValidateEmail_fourth_request [OF wf opens r1 r2 r3 within]
  have early: "150 * Second - 0 \<le> 3 * Minute" and late: "181 * Second - 0 > 3 * Minute"
    by (simp_all add: Minute_def Second_def)
  from fourth [of "150 * Second" "150 * Second" "''444444''"] early
  have a: "HandleValidateEmail after_three ?r (150 * Second) (150 * Second) ''444444''
      = (limited, after_three)"
    and b: "VerificationCodes after_three ''ana@example.com'' = Some ''333333''"
    by blast+
  from fourth [of "181 * Second" "181 * Second" "''444444''"] late
  have c: "fst (HandleValidateEmail after_three ?r (181 * Second) (181 * Second) ''444444'')
      = code_sent ''444444''"
    by simp
  from a b c show ?thesis by blast
qed

text \<open>
  The same window in \<open>RegisterEmailAttempt\<close>, which first sweeps the entries older than
  15 minutes (at \<open>k\<close>) and then decides (at \<open>t\<close>); the clock does not run backwards.
\<close>

lemma RegisterEmailAttempt_limiter:
  assumes "EmailRateLimiter s e = Some entry" and "k - StartTime entry \<le> 15 * Minute"
  shows "RegisterEmailAttempt s e k t u =
     (if t - StartTime entry > 3 * Minute then
        (True, (cleanupExpired s k)\<lparr>EmailRateLimiter :=
                 (EmailRateLimiter (cleanupExpired s k))(e \<mapsto> \<lparr>Count = 1, StartTime = u\<rparr>)\<rparr>)
      else if Count entry \<ge> 3 then (False, cleanupExpired s k)
      else (True, (cleanupExpired s k)\<lparr>EmailRateLimiter :=
                 (EmailRateLimiter (cleanupExpired s k))(e \<mapsto> entry\<lparr>Count := Count entry + 1\<rparr>)\<rparr>))"
  using assms
  by (simp add: RegisterEmailAttempt_def cleanupExpired_def expire_def Let_def)

lemma RegisterEmailAttempt_fourth:
  assumes entry: "EmailRateLimiter s e = Some \<lparr>Count = 3, StartTime = start\<rparr>"
    and clock: "k \<le> t"
  shows "t - start \<le> 3 * Minute \<longrightarrow> RegisterEmailAttempt s e k t u = (False, cleanupExpired s k)"
    and "t - start > 3 * Minute \<longrightarrow>
           fst (RegisterEmailAttempt s e k t u) \<and>
           EmailRateLimiter (snd (RegisterEmailAttempt s e k t u)) e
             = Some \<lparr>Count = 1, StartTime = u\<rparr>"
proof -
  show "t - start \<le> 3 * Minute \<longrightarrow> RegisterEmailAttempt s e k t u = (False, cleanupExpired s k)"
  proof
    assume win: "t - start \<le> 3 * Minute"
    with clock have "k - StartTime \<lparr>Count = 3, StartTime = start\<rparr> \<le> 15 * Minute"
      by (simp add: Minute_def Second_def)
    from RegisterEmailAttempt_limiter [OF entry this] win
    show "RegisterEmailAttempt s e k t u = (False, cleanupExpired s k)"
      by simp
  qed
  show "t - start > 3 * Minute \<longrightarrow>
           fst (RegisterEmailAttempt s e k t u) \<and>
           EmailRateLimiter (snd (RegisterEmailAttempt s e k t u)) e
             = Some \<lparr>Count = 1, StartTime = u\<rparr>"
    using entry
    by (simp add: RegisterEmailAttempt_def cleanupExpired_def expire_def Let_def)
qed

subsection \<open>The registration store\<close>

text \<open>
  Claim C10. \<open>UpdateRegistrationStatus\<close> returns no error and keeps the number and the
  order of the rows. In every row the identity columns \<open>registration_id\<close>, \<open>email\<close>,
  \<open>first_name\<close>, \<open>last_name\<close>, \<open>company_name\<close>, \<open>country\<close>, \<open>vat_id\<close> and
  \<open>created_at\<close> are as before. A row whose \<open>registration_id\<close> and \<open>email\<close> are both
  those of the registration gets its \<open>updated_at\<close>, \<open>issuance_at\<close>, \<open>issuance_error\<close>,
  \<open>notif_email_at\<close> and \<open>notif_email_error\<close> from it and is otherwise unchanged; every
  other row is unchanged.
\<close>

theorem UpdateRegistrationStatus_frame:
  assumes "UpdateRegistrationStatus reg now db = (err, regU, dbU)"
  shows "err = None \<and> length dbU = length db \<and>
     (\<forall>i < length db.
        same_identity (dbU ! i) (db ! i) \<and>
        (if registration_id (db ! i) = registration_id reg \<and> email (db ! i) = email reg
         then dbU ! i = (db ! i)\<lparr>updated_at := now,
                                 issuance_at := issuance_at reg,
                                 issuance_error := issuance_error reg,
                                 notif_email_at := notif_email_at reg,
                                 notif_email_error := notif_email_error reg\<rparr>
         else dbU ! i = db ! i))"
  using assms
  by (auto simp: UpdateRegistrationStatus_def Let_def same_identity_def)

theorem UpdateRegistrationStatus_frame_witness:
  "fst (UpdateRegistrationStatus (ana\<lparr>issuance_at := 30, issuance_error := ''boom''\<rparr>) 40 [ana, bea]) = None
   \<and> length (snd (snd (UpdateRegistrationStatus (ana\<lparr>issuance_at := 30, issuance_error := ''boom''\<rparr>) 40 [ana, bea]))) = 2
   \<and> snd (snd (UpdateRegistrationStatus (ana\<lparr>issuance_at := 30, issuance_error := ''boom''\<rparr>) 40 [ana, bea])) ! 0
       = ana\<lparr>updated_at := 40, issuance_at := 30, issuance_error := ''boom''\<rparr>
   \<and> snd (snd (UpdateRegistrationStatus (ana\<lparr>issuance_at := 30, issuance_error := ''boom''\<rparr>) 40 [ana, bea])) ! 1
       = bea"
proof -
  let ?reg = "ana\<lparr>issuance_at := 30, issuance_error := ''boom''\<rparr>"
  obtain err regU dbU where run: "UpdateRegistrationStatus ?reg 40 [ana, bea] = (err, regU, dbU)"
    by (metis prod_cases3)
  note frame = UpdateRegistrationStatus_frame [OF run]
  from frame have none: "err = None" and len: "length dbU = 2" by simp_all
  from frame have first: "dbU ! 0 = ana\<lparr>updated_at := 40, issuance_at := 30, issuance_error := ''boom''\<rparr>"
    by (simp add: ana_def)
  from frame have second: "dbU ! 1 = bea"
    by (simp add: ana_def bea_def)
  from none len first second show ?thesis by (simp add: run)
qed


text \<open>Saving into the empty table inserts; saving the stored pair again outside production amends.\<close>

lemma runtime_names:
  "Development \<noteq> Production" "Preproduction \<noteq> Production"
  "Production \<noteq> Development" "Production \<noteq> Preproduction"
  by (simp_all add: Development_def Preproduction_def Production_def)

lemma SaveRegistration_first:
  assumes "rt = Development \<or> rt = Preproduction \<or> rt = Production"
  shows "SaveRegistration rt now now2 reg [] = (None, stamped now reg, [stamped now reg])"
  using assms
  by (auto simp: SaveRegistration_def GetRegistration_def insert_row_def stamped_def Let_def)

lemma SaveRegistration_amends_single:
  assumes "rt = Development \<or> rt = Preproduction"
    and "email reg = email row" and "vat_id reg = vat_id row"
  shows "SaveRegistration rt now now2 reg [row] =
     (None, (stamped now reg)\<lparr>updated_at := now2\<rparr>,
      [row\<lparr>registration_id := registration_id reg, first_name := first_name reg,
           last_name := last_name reg, company_name := company_name reg,
           country := country reg, updated_at := now2, issuance_at := now,
           issuance_error := [], notif_email_at := now, notif_email_error := []\<rparr>])"
  using assms
  by (auto simp: SaveRegistration_def GetRegistration_def AmendRegistration_def stamped_def Let_def)

lemma SaveRegistration_production_conflict:
  assumes "list_ex (\<lambda>row. registration_id row = registration_id reg \<or> email row = email reg
                          \<or> vat_id row = vat_id reg) db"
  shows "SaveRegistration Production now now2 reg db = (Some UniqueConstraintFailed, stamped now reg, db)"
  using assms
  by (auto simp: SaveRegistration_def insert_row_def stamped_def Let_def runtime_names)

text \<open>
  Claim C3. From the empty table. In development and in preproduction, two calls of
  \<open>SaveRegistration\<close> with the same \<open>email\<close> and \<open>vat_id\<close> both succeed and leave one
  row: the second registration's \<open>registration_id\<close>, names, company and country, its
  time stamps, and the \<open>created_at\<close> of the first call, which the amending statement
  does not set. In production the first call succeeds, and a second call with the same
  \<open>email\<close>, the same \<open>vat_id\<close> or the same \<open>registration_id\<close> fails on the
  constraint and leaves the table with the first row as it was. (For a table that already
  has other rows see \<open>SaveRegistration_amends\<close> and
  \<open>SaveRegistration_production_conflict\<close>: amending then also needs the new
  \<open>registration_id\<close> not to be the one of another row.)
\<close>

theorem SaveRegistration_twice:
  "((rt = Development \<or> rt = Preproduction) \<and> email r2 = email r1 \<and> vat_id r2 = vat_id r1 \<longrightarrow>
      (\<exists>s1 s2 db1.
         SaveRegistration rt a a2 r1 [] = (None, s1, db1) \<and>
         SaveRegistration rt b b2 r2 db1 =
           (None, s2,
            [r2\<lparr>created_at := a, updated_at := b2, issuance_at := b, notif_email_at := b,
                issuance_error := [], notif_email_error := []\<rparr>])))
   \<and> (rt = Production \<and> (email r2 = email r1 \<or> vat_id r2 = vat_id r1
                          \<or> registration_id r2 = registration_id r1) \<longrightarrow>
      (\<exists>s1 s2 db1.
         SaveRegistration rt a a2 r1 [] = (None, s1, db1) \<and>
         db1 = [stamped a r1] \<and>
         SaveRegistration rt b b2 r2 db1 = (Some UniqueConstraintFailed, s2, db1)))"
proof (intro conjI impI)
  assume h: "(rt = Development \<or> rt = Preproduction) \<and> email r2 = email r1 \<and> vat_id r2 = vat_id r1"
  then have rt: "rt = Development \<or> rt = Preproduction" by simp
  have first: "SaveRegistration rt a a2 r1 [] = (None, stamped a r1, [stamped a r1])"
    using rt by (intro SaveRegistration_first) blast
  have keys: "email r2 = email (stamped a r1)" "vat_id r2 = vat_id (stamped a r1)"
    using h by (simp_all add: stamped_def)
  have row: "(stamped a r1)\<lparr>registration_id := registration_id r2, first_name := first_name r2,
           last_name := last_name r2, company_name := company_name r2,
           country := country r2, updated_at := b2, issuance_at := b,
           issuance_error := [], notif_email_at := b, notif_email_error := []\<rparr>
        = r2\<lparr>created_at := a, updated_at := b2, issuance_at := b, notif_email_at := b,
                issuance_error := [], notif_email_error := []\<rparr>"
    using h by (simp add: stamped_def)
  have second: "SaveRegistration rt b b2 r2 [stamped a r1] =
      (None, (stamped b r2)\<lparr>updated_at := b2\<rparr>,
       [r2\<lparr>created_at := a, updated_at := b2, issuance_at := b, notif_email_at := b,
                issuance_error := [], notif_email_error := []\<rparr>])"
    using SaveRegistration_amends_single [OF rt keys] by (simp only: row)
  from first second show "\<exists>s1 s2 db1.
         SaveRegistration rt a a2 r1 [] = (None, s1, db1) \<and>
         SaveRegistration rt b b2 r2 db1 =
           (None, s2,
            [r2\<lparr>created_at := a, updated_at := b2, issuance_at := b, notif_email_at := b,
                issuance_error := [], notif_email_error := []\<rparr>])"
    by blast
next
  assume h: "rt = Production \<and> (email r2 = email r1 \<or> vat_id r2 = vat_id r1
                          \<or> registration_id r2 = registration_id r1)"
  then have rt: "rt = Production" by simp
  have first: "SaveRegistration rt a a2 r1 [] = (None, stamped a r1, [stamped a r1])"
    using rt by (simp add: SaveRegistration_first)
  have "list_ex (\<lambda>row. registration_id row = registration_id r2 \<or> email row = email r2
                          \<or> vat_id row = vat_id r2) [stamped a r1]"
    using h by (auto simp: stamped_def)
  then have second: "SaveRegistration rt b b2 r2 [stamped a r1] =
      (Some UniqueConstraintFailed, stamped b r2, [stamped a r1])"
    unfolding rt by (rule SaveRegistration_production_conflict)
  from first second show "\<exists>s1 s2 db1.
         SaveRegistration rt a a2 r1 [] = (None, s1, db1) \<and>
         db1 = [stamped a r1] \<and>
         SaveRegistration rt b b2 r2 db1 = (Some UniqueConstraintFailed, s2, db1)"
    by blast
qed


theorem SaveRegistration_twice_witness:
  "snd (snd (SaveRegistration Development 20 21 (ana\<lparr>first_name := ''Anna'', last_name := ''Roig''\<rparr>)
        (snd (snd (SaveRegistration Development 10 11 ana []))))) =
     [ana\<lparr>first_name := ''Anna'', last_name := ''Roig'', created_at := 10, updated_at := 21,
          issuance_at := 20, notif_email_at := 20\<rparr>]
   \<and> fst (SaveRegistration Production 20 21 (bea\<lparr>email := ''ana@example.com''\<rparr>)
        (snd (snd (SaveRegistration Production 10 11 ana [])))) = Some UniqueConstraintFailed
   \<and> snd (snd (SaveRegistration Production 20 21 (bea\<lparr>email := ''ana@example.com''\<rparr>)
        (snd (snd (SaveRegistration Production 10 11 ana []))))) = [ana]"
proof -
  let ?anna = "ana\<lparr>first_name := ''Anna'', last_name := ''Roig''\<rparr>"
  let ?bea = "bea\<lparr>email := ''ana@example.com''\<rparr>"
  have dev: "(Development = Development \<or> Development = Preproduction)
      \<and> email ?anna = email ana \<and> vat_id ?anna = vat_id ana"
    by simp
  have pro: "Production = Production \<and> (email ?bea = email ana \<or> vat_id ?bea = vat_id ana
      \<or> registration_id ?bea = registration_id ana)"
    by (simp add: ana_def)
  from SaveRegistration_twice [of Development ?anna ana 10 11 20 21] dev
  obtain s1 s2 db1 where
    d1: "SaveRegistration Development 10 11 ana [] = (None, s1, db1)" and
    d2: "SaveRegistration Development 20 21 ?anna db1 =
           (None, s2, [?anna\<lparr>created_at := 10, updated_at := 21, issuance_at := 20,
                      notif_email_at := 20, issuance_error := [], notif_email_error := []\<rparr>])"
    by blast
  from SaveRegistration_twice [of Production ?bea ana 10 11 20 21] pro
  obtain p1 p2 pdb where
    p1: "SaveRegistration Production 10 11 ana [] = (None, p1, pdb)" and
    pdb: "pdb = [stamped 10 ana]" and
    p2: "SaveRegistration Production 20 21 ?bea pdb = (Some UniqueConstraintFailed, p2, pdb)"
    by blast
  have row: "?anna\<lparr>created_at := 10, updated_at := 21, issuance_at := 20,
                      notif_email_at := 20, issuance_error := [], notif_email_error := []\<rparr>
      = ana\<lparr>first_name := ''Anna'', last_name := ''Roig'', created_at := 10, updated_at := 21,
          issuance_at := 20, notif_email_at := 20\<rparr>"
    by (simp add: ana_def)
  have same: "stamped 10 ana = ana"
    by (simp add: stamped_def ana_def)
  from d1 d2 p1 p2 show ?thesis
    by (simp add: row pdb same)
qed

text \<open>The same on any table that satisfies the constraints.\<close>

lemma filter_key_le_one:
  "distinct (map f xs) \<Longrightarrow> length (filter (\<lambda>x. f x = k \<and> P x) xs) \<le> 1"
proof (induction xs)
  case Nil
  then show ?case by simp
next
  case (Cons x xs)
  show ?case
  proof (cases "f x = k")
    case True
    with Cons.prems have "\<forall>y \<in> set xs. f y \<noteq> k" by (auto simp: image_iff)
    then have "filter (\<lambda>x. f x = k \<and> P x) xs = []" by (simp add: filter_empty_conv)
    then show ?thesis by simp
  next
    case False
    with Cons show ?thesis by simp
  qed
qed

lemma SaveRegistration_amends:
  assumes rt: "rt = Development \<or> rt = Preproduction"
    and ok: "table_ok db"
    and stored: "list_ex (\<lambda>row. email row = email reg \<and> vat_id row = vat_id reg) db"
    and free: "\<not> list_ex (\<lambda>row. \<not> (email row = email reg \<and> vat_id row = vat_id reg)
                              \<and> registration_id row = registration_id reg) db"
  shows "SaveRegistration rt now now2 reg db =
     (None, (stamped now reg)\<lparr>updated_at := now2\<rparr>,
      map (amend_row ((stamped now reg)\<lparr>updated_at := now2\<rparr>)) db)"
proof -
  let ?hit = "\<lambda>row. email row = email reg \<and> vat_id row = vat_id reg"
  from ok have "distinct (map email db)" by (simp add: table_ok_def)
  then have le: "length (filter ?hit db) \<le> 1" by (rule filter_key_le_one)
  from stored have ne: "filter ?hit db \<noteq> []"
    by (auto simp: list_ex_iff filter_empty_conv)
  then obtain row rest where hits: "filter ?hit db = row # rest"
    by (cases "filter ?hit db") auto
  have get: "GetRegistration (vat_id reg) (email reg) db = Inr row"
  proof -
    have "filter (\<lambda>row. vat_id row = vat_id reg \<and> email row = email reg) db = filter ?hit db"
      by (rule filter_cong) auto
    then show ?thesis by (simp add: GetRegistration_def hits)
  qed
  have amend: "AmendRegistration (stamped now reg) now2 db =
      (None, (stamped now reg)\<lparr>updated_at := now2\<rparr>,
       map (amend_row ((stamped now reg)\<lparr>updated_at := now2\<rparr>)) db)"
    using le free unfolding AmendRegistration_def Let_def amend_row_def [abs_def]
    by (simp add: stamped_def)
  from rt show ?thesis
    unfolding SaveRegistration_def Let_def
    using get amend by (auto simp: stamped_def)
qed

text \<open>
  Outside production the table has the same constraints: an email that is stored with
  another \<open>vat_id\<close> is not amended; the insert fails on the constraint and the table is
  unchanged.
\<close>

theorem SaveRegistration_same_email_other_vat:
  assumes "rt = Development \<or> rt = Preproduction"
    and "list_ex (\<lambda>row. email row = email reg) db"
    and "\<not> list_ex (\<lambda>row. vat_id row = vat_id reg \<and> email row = email reg) db"
  shows "SaveRegistration rt now now2 reg db = (Some UniqueConstraintFailed, stamped now reg, db)"
proof -
  from assms(3) have none: "filter (\<lambda>row. vat_id row = vat_id reg \<and> email row = email reg) db = []"
    by (auto simp: list_ex_iff filter_empty_conv)
  from assms(2) have clash: "list_ex (\<lambda>row. registration_id row = registration_id reg
      \<or> email row = email reg \<or> vat_id row = vat_id reg) db"
    by (auto simp: list_ex_iff)
  from assms(1) show ?thesis
    unfolding SaveRegistration_def Let_def GetRegistration_def
    using none clash by (auto simp: insert_row_def stamped_def)
qed

theorem SaveRegistration_same_email_other_vat_witness:
  "SaveRegistration Development 20 21 (ana\<lparr>vat_id := ''B00000000''\<rparr>) [ana]
     = (Some UniqueConstraintFailed, stamped 20 (ana\<lparr>vat_id := ''B00000000''\<rparr>), [ana])"
proof -
  have "Development = Development \<or> Development = Preproduction" by simp
  moreover have "list_ex (\<lambda>row. email row = email (ana\<lparr>vat_id := ''B00000000''\<rparr>)) [ana]"
    by simp
  moreover have "\<not> list_ex (\<lambda>row. vat_id row = vat_id (ana\<lparr>vat_id := ''B00000000''\<rparr>)
      \<and> email row = email (ana\<lparr>vat_id := ''B00000000''\<rparr>)) [ana]"
    by (simp add: ana_def)
  ultimately show ?thesis
    by (rule SaveRegistration_same_email_other_vat)
qed


subsection \<open>The issuance client\<close>



text \<open>
  Claim C5. \<open>Strings.MarshalJSON\<close> renders a list of one element as that string and a
  list of two or more as the array of its strings. Parsing does not read both encodings:
  \<open>Strings\<close> has no \<open>UnmarshalJSON\<close>, so \<open>ParseLEARIssuanceRequestBody\<close> rejects a
  bare string under \<open>action\<close>. On the serialized form of the package's own sample
  \<open>Cred1\<close>, whose action list is \<open>["execute"]\<close>, it returns an \<open>UnmarshalTypeError\<close>.
\<close>

theorem Parse_of_Marshal_single_action:
  "Strings_MarshalJSON (Slice [''execute'']) = JString ''execute''
   \<and> Strings_MarshalJSON (Slice [''execute'', ''verify''])
       = JArray [JString ''execute'', JString ''verify'']
   \<and> ParseLEARIssuanceRequestBody (Some (Marshal Cred1))
       = Inl (UnmarshalTypeError ''string'' ''credissuance.Strings'')"
  by code_simp

lemma Strings_MarshalJSON_one: "Strings_MarshalJSON (Slice [x]) = JString x"
  by (simp add: Strings_MarshalJSON_def len_def)

lemma Strings_MarshalJSON_more:
  "length xs \<ge> 2 \<Longrightarrow> Strings_MarshalJSON (Slice xs) = JArray (map JString xs)"
  by (simp add: Strings_MarshalJSON_def len_def)

text \<open>
  Parsing the serialized form of any request: it fails exactly when some power has an
  action list of one element, and otherwise gives the request back.
\<close>

lemma decode_members_append:
  "decode_members field (xs @ ys) x =
     (case decode_members field xs x of Inl e \<Rightarrow> Inl e | Inr y \<Rightarrow> decode_members field ys y)"
  by (induction xs arbitrary: x) (auto split: sum.splits)

lemma decode_members_omitempty_string:
  "decode_members field (omitempty_string key v) x =
     (if v = [] then Inr x else field key (JString v) x)"
  by (simp add: omitempty_string_def split: sum.splits)

lemma Mandator_keys:
  "Mandator_field ''organizationIdentifier'' (JString v) m = Inr (m\<lparr>OrganizationIdentifier := v\<rparr>)"
  "Mandator_field ''organization'' (JString v) m = Inr (m\<lparr>Organization := v\<rparr>)"
  "Mandator_field ''country'' (JString v) m = Inr (m\<lparr>MandatorCountry := v\<rparr>)"
  "Mandator_field ''commonName'' (JString v) m = Inr (m\<lparr>CommonName := v\<rparr>)"
  "Mandator_field ''emailAddress'' (JString v) m = Inr (m\<lparr>EmailAddress := v\<rparr>)"
  "Mandator_field ''serialNumber'' (JString v) m = Inr (m\<lparr>SerialNumber := v\<rparr>)"
  by code_simp+

lemma Mandator_roundtrip:
  "decode_struct ty Mandator_field (Marshal_Mandator m) zero_Mandator = Inr m"
proof -
  have "m = \<lparr>OrganizationIdentifier = OrganizationIdentifier m, Organization = Organization m,
      MandatorCountry = MandatorCountry m, CommonName = CommonName m,
      EmailAddress = EmailAddress m, SerialNumber = SerialNumber m\<rparr>"
    by simp
  then show ?thesis
    by (simp add: Marshal_Mandator_def decode_members_append decode_members_omitempty_string
        Mandator_keys zero_Mandator_def)
qed

lemma Mandatee_keys:
  "Mandatee_field ''firstName'' (JString v) m = Inr (m\<lparr>MandateeFirstName := v\<rparr>)"
  "Mandatee_field ''lastName'' (JString v) m = Inr (m\<lparr>MandateeLastName := v\<rparr>)"
  "Mandatee_field ''nationality'' (JString v) m = Inr (m\<lparr>Nationality := v\<rparr>)"
  "Mandatee_field ''email'' (JString v) m = Inr (m\<lparr>MandateeEmail := v\<rparr>)"
  by code_simp+

lemma Mandatee_roundtrip:
  "decode_struct ty Mandatee_field (Marshal_Mandatee m) zero_Mandatee = Inr m"
proof -
  have "m = \<lparr>MandateeFirstName = MandateeFirstName m, MandateeLastName = MandateeLastName m,
      Nationality = Nationality m, MandateeEmail = MandateeEmail m\<rparr>"
    by simp
  then show ?thesis
    by (simp add: Marshal_Mandatee_def decode_members_append decode_members_omitempty_string
        Mandatee_keys zero_Mandatee_def)
qed

lemma Power_keys:
  "Power_field ''type'' (JString v) p = Inr (p\<lparr>PowerType := v\<rparr>)"
  "Power_field ''domain'' (JString v) p = Inr (p\<lparr>PowerDomain := v\<rparr>)"
  "Power_field ''function'' (JString v) p = Inr (p\<lparr>PowerFunction := v\<rparr>)"
  "Power_field ''action'' j p =
     and_then (decode_slice ''credissuance.Strings'' (\<lambda>e. decode_string e []) j)
       (\<lambda>a. p\<lparr>Action := a\<rparr>)"
  by code_simp+

lemma decode_strings: "decode_each (\<lambda>e. decode_string e []) (map JString xs) = Inr xs"
  by (induction xs) (simp_all add: and_then_def)

lemma decode_action:
  "decode_members Power_field (omitempty_slice ''action'' a Strings_MarshalJSON) p =
     (if len a = 1 then Inl (UnmarshalTypeError ''string'' ''credissuance.Strings'')
      else Inr (p\<lparr>Action := normal_action a\<rparr>))" if "Action p = NilSlice"
proof (cases a)
  case NilSlice
  with that show ?thesis
    by (simp add: omitempty_slice_def len_def normal_action_def)
next
  case (Slice xs)
  show ?thesis
  proof (cases "length xs = 1")
    case True
    then show ?thesis
      by (simp add: Slice omitempty_slice_def len_def Strings_MarshalJSON_def Power_keys
          and_then_def)
  next
    case False
    with that show ?thesis
      by (auto simp: Slice omitempty_slice_def len_def Strings_MarshalJSON_def Power_keys
          and_then_def decode_strings normal_action_def)
  qed
qed

lemma Power_roundtrip:
  "decode_struct ty Power_field (Marshal_Power p) zero_Power =
     (if len (Action p) = 1 then Inl (UnmarshalTypeError ''string'' ''credissuance.Strings'')
      else Inr (normal_power p))"
proof -
  have p: "p = \<lparr>PowerType = PowerType p, PowerDomain = PowerDomain p,
      PowerFunction = PowerFunction p, Action = Action p\<rparr>"
    by simp
  have "decode_members Power_field
      (omitempty_string ''type'' (PowerType p) @ omitempty_string ''domain'' (PowerDomain p)
       @ omitempty_string ''function'' (PowerFunction p)) zero_Power
     = Inr \<lparr>PowerType = PowerType p, PowerDomain = PowerDomain p,
            PowerFunction = PowerFunction p, Action = NilSlice\<rparr>"
    by (simp add: decode_members_append decode_members_omitempty_string Power_keys zero_Power_def)
  then have "decode_members Power_field
      ((omitempty_string ''type'' (PowerType p) @ omitempty_string ''domain'' (PowerDomain p)
       @ omitempty_string ''function'' (PowerFunction p))
       @ omitempty_slice ''action'' (Action p) Strings_MarshalJSON) zero_Power
     = (if len (Action p) = 1 then Inl (UnmarshalTypeError ''string'' ''credissuance.Strings'')
        else Inr (\<lparr>PowerType = PowerType p, PowerDomain = PowerDomain p,
            PowerFunction = PowerFunction p, Action = normal_action (Action p)\<rparr>))"
    by (simp only: decode_members_append [of _ _ "omitempty_slice _ _ _"] sum.case)
       (simp add: decode_action)
  moreover have "normal_power p = \<lparr>PowerType = PowerType p, PowerDomain = PowerDomain p,
            PowerFunction = PowerFunction p, Action = normal_action (Action p)\<rparr>"
    by (simp add: normal_power_def)
  ultimately show ?thesis
    by (simp add: Marshal_Power_def)
qed


lemma Powers_roundtrip:
  "decode_each (\<lambda>e. decode_struct ''credissuance.Power'' Power_field e zero_Power)
     (map Marshal_Power ps) =
     (if list_ex (\<lambda>p. len (Action p) = 1) ps
      then Inl (UnmarshalTypeError ''string'' ''credissuance.Strings'')
      else Inr (map normal_power ps))"
  by (induction ps) (simp_all add: Power_roundtrip and_then_def)

lemma Payload_keys:
  "Payload_field ''mandator'' j p =
     and_then (decode_struct ''credissuance.Mandator'' Mandator_field j (PayloadMandator p))
       (\<lambda>m. p\<lparr>PayloadMandator := m\<rparr>)"
  "Payload_field ''mandatee'' j p =
     and_then (decode_struct ''credissuance.Mandatee'' Mandatee_field j (PayloadMandatee p))
       (\<lambda>m. p\<lparr>PayloadMandatee := m\<rparr>)"
  "Payload_field ''power'' j p =
     and_then (decode_slice ''[]credissuance.Power''
                 (\<lambda>e. decode_struct ''credissuance.Power'' Power_field e zero_Power) j)
       (\<lambda>ps. p\<lparr>PayloadPower := ps\<rparr>)"
  by code_simp+

lemma Payload_roundtrip:
  "decode_struct ty Payload_field (Marshal_Payload p) zero_Payload =
     (if list_ex (\<lambda>p. len (Action p) = 1) (elems (PayloadPower p))
      then Inl (UnmarshalTypeError ''string'' ''credissuance.Strings'')
      else Inr (p\<lparr>PayloadPower :=
                   (if len (PayloadPower p) = 0 then NilSlice
                    else Slice (map normal_power (elems (PayloadPower p))))\<rparr>))"
proof -
  have p: "p = \<lparr>PayloadMandator = PayloadMandator p, PayloadMandatee = PayloadMandatee p,
      PayloadPower = PayloadPower p\<rparr>"
    by simp
  have two: "decode_members Payload_field
      [(''mandator'', Marshal_Mandator (PayloadMandator p)),
       (''mandatee'', Marshal_Mandatee (PayloadMandatee p))] zero_Payload
     = Inr \<lparr>PayloadMandator = PayloadMandator p, PayloadMandatee = PayloadMandatee p,
            PayloadPower = NilSlice\<rparr>"
    by (simp add: Payload_keys zero_Payload_def Mandator_roundtrip Mandatee_roundtrip and_then_def)
  have three: "decode_members Payload_field
      (omitempty_slice ''power'' (PayloadPower p) (\<lambda>ps. JArray (map Marshal_Power (elems ps))))
      \<lparr>PayloadMandator = PayloadMandator p, PayloadMandatee = PayloadMandatee p,
        PayloadPower = NilSlice\<rparr>
     = (if list_ex (\<lambda>p. len (Action p) = 1) (elems (PayloadPower p))
        then Inl (UnmarshalTypeError ''string'' ''credissuance.Strings'')
        else Inr \<lparr>PayloadMandator = PayloadMandator p, PayloadMandatee = PayloadMandatee p,
                  PayloadPower =
                   (if len (PayloadPower p) = 0 then NilSlice
                    else Slice (map normal_power (elems (PayloadPower p))))\<rparr>)"
    by (cases "PayloadPower p")
       (auto simp: omitempty_slice_def len_def Payload_keys Powers_roundtrip and_then_def)
  have "decode_members Payload_field
      ([(''mandator'', Marshal_Mandator (PayloadMandator p)),
        (''mandatee'', Marshal_Mandatee (PayloadMandatee p))]
       @ omitempty_slice ''power'' (PayloadPower p) (\<lambda>ps. JArray (map Marshal_Power (elems ps))))
      zero_Payload
     = (if list_ex (\<lambda>p. len (Action p) = 1) (elems (PayloadPower p))
        then Inl (UnmarshalTypeError ''string'' ''credissuance.Strings'')
        else Inr \<lparr>PayloadMandator = PayloadMandator p, PayloadMandatee = PayloadMandatee p,
                  PayloadPower =
                   (if len (PayloadPower p) = 0 then NilSlice
                    else Slice (map normal_power (elems (PayloadPower p))))\<rparr>)"
    by (simp only: decode_members_append two three sum.case)
  then show ?thesis
    by (simp add: Marshal_Payload_def)
qed

lemma Body_keys:
  "Body_field ''schema'' (JString v) r = Inr (r\<lparr>Schema := v\<rparr>)"
  "Body_field ''operation_mode'' (JString v) r = Inr (r\<lparr>OperationMode := v\<rparr>)"
  "Body_field ''format'' (JString v) r = Inr (r\<lparr>Format := v\<rparr>)"
  "Body_field ''response_uri'' (JString v) r = Inr (r\<lparr>ResponseUri := v\<rparr>)"
  "Body_field ''payload'' j r =
     and_then (decode_struct ''credissuance.Payload'' Payload_field j (Payload r))
       (\<lambda>p. r\<lparr>Payload := p\<rparr>)"
  by code_simp+

lemma Parse_of_Marshal:
  "ParseLEARIssuanceRequestBody (Some (Marshal r)) =
     (if list_ex (\<lambda>p. len (Action p) = 1) (elems (PayloadPower (Payload r)))
      then Inl (UnmarshalTypeError ''string'' ''credissuance.Strings'')
      else Inr (normal_body r))"
proof -
  let ?strings = "omitempty_string ''schema'' (Schema r)
      @ omitempty_string ''operation_mode'' (OperationMode r)
      @ omitempty_string ''format'' (Format r)
      @ omitempty_string ''response_uri'' (ResponseUri r)"
  let ?mid = "\<lparr>Schema = Schema r, OperationMode = OperationMode r, Format = Format r,
      ResponseUri = ResponseUri r, Payload = zero_Payload\<rparr>"
  have four: "decode_members Body_field ?strings zero_Body = Inr ?mid"
    by (simp add: decode_members_append decode_members_omitempty_string Body_keys zero_Body_def
        zero_Payload_def)
  have last: "decode_members Body_field [(''payload'', Marshal_Payload (Payload r))] ?mid
     = (if list_ex (\<lambda>p. len (Action p) = 1) (elems (PayloadPower (Payload r)))
        then Inl (UnmarshalTypeError ''string'' ''credissuance.Strings'')
        else Inr (normal_body r))"
    by (simp add: Body_keys Payload_roundtrip and_then_def normal_body_def)
  have "decode_members Body_field (?strings @ [(''payload'', Marshal_Payload (Payload r))]) zero_Body
     = (if list_ex (\<lambda>p. len (Action p) = 1) (elems (PayloadPower (Payload r)))
        then Inl (UnmarshalTypeError ''string'' ''credissuance.Strings'')
        else Inr (normal_body r))"
    by (simp only: decode_members_append [of _ ?strings] four last sum.case)
  then show ?thesis
    by (simp add: ParseLEARIssuanceRequestBody_def Marshal_def)
qed


text \<open>
  Claim C9. As stated the claim fails: the members \<open>mandator\<close> and \<open>mandatee\<close> have no
  \<open>omitempty\<close>, and the package's sample \<open>Cred2\<close>, whose mandator and mandatee are
  all empty, is serialized with \<open>"mandator":{}\<close>.
\<close>

theorem Marshal_keeps_empty_objects:
  "key_with empty_value (Marshal Cred2)"
  by (simp add: Marshal_def Cred2_def Marshal_Payload_def Marshal_Mandator_def zero_Mandator_def
      omitempty_string_def omitempty_slice_def empty_value_def)

lemma key_with_members_append:
  "key_with_members p (xs @ ys) = (key_with_members p xs \<or> key_with_members p ys)"
  by (induction xs) auto

lemma omitempty_string_blank:
  "\<not> key_with_members blank_value (omitempty_string key v)"
  by (simp add: omitempty_string_def blank_value_def)

lemma key_with_strings: "\<not> key_with_items p (map JString xs)"
  by (induction xs) auto

lemma Strings_MarshalJSON_blank:
  assumes "len a \<noteq> 0" and "elems a \<noteq> [[]]"
  shows "\<not> blank_value (Strings_MarshalJSON a) \<and> \<not> key_with blank_value (Strings_MarshalJSON a)"
proof (cases a)
  case NilSlice
  with assms show ?thesis by (simp add: len_def)
next
  case (Slice xs)
  with assms have "xs \<noteq> []" "xs \<noteq> [[]]" by (simp_all add: len_def)
  then show ?thesis
    by (cases xs; cases "tl xs")
       (auto simp: Slice Strings_MarshalJSON_def len_def blank_value_def key_with_strings)
qed

lemma Marshal_Power_blank:
  assumes "elems (Action p) \<noteq> [[]]"
  shows "\<not> key_with blank_value (Marshal_Power p)"
  using assms Strings_MarshalJSON_blank [of "Action p"]
  by (simp add: Marshal_Power_def key_with_members_append omitempty_string_blank omitempty_slice_def)

lemma Marshal_Powers_blank:
  assumes "\<forall>p \<in> set ps. elems (Action p) \<noteq> [[]]"
  shows "\<not> key_with_items blank_value (map Marshal_Power ps)"
  using assms by (induction ps) (auto simp: Marshal_Power_blank)

lemma Marshal_Mandator_blank: "\<not> key_with blank_value (Marshal_Mandator m)"
  by (simp add: Marshal_Mandator_def key_with_members_append omitempty_string_blank)

lemma Marshal_Mandatee_blank: "\<not> key_with blank_value (Marshal_Mandatee m)"
  by (simp add: Marshal_Mandatee_def key_with_members_append omitempty_string_blank)

lemma objects_not_blank:
  "\<not> blank_value (Marshal_Mandator m)" "\<not> blank_value (Marshal_Mandatee e)"
  "\<not> blank_value (Marshal_Payload pl)"
  by (simp_all add: Marshal_Mandator_def Marshal_Mandatee_def Marshal_Payload_def blank_value_def)

lemma array_not_blank: "xs \<noteq> [] \<Longrightarrow> \<not> blank_value (JArray (map f xs))"
  by (simp add: blank_value_def)

lemma Marshal_Payload_blank:
  assumes "\<forall>p \<in> set (elems (PayloadPower pl)). elems (Action p) \<noteq> [[]]"
  shows "\<not> key_with blank_value (Marshal_Payload pl)"
proof -
  have powers: "\<not> key_with_members blank_value
      (omitempty_slice ''power'' (PayloadPower pl) (\<lambda>ps. JArray (map Marshal_Power (elems ps))))"
    using Marshal_Powers_blank [OF assms]
    by (simp add: omitempty_slice_def len_def array_not_blank)
  show ?thesis
    unfolding Marshal_Payload_def
    using powers
    by (simp add: key_with_members_append objects_not_blank Marshal_Mandator_blank
        Marshal_Mandatee_blank)
qed

text \<open>
  Claim C9, amended. The serialized form always has \<open>payload\<close>, and in it \<open>mandator\<close>
  and \<open>mandatee\<close>, which are \<open>{}\<close> when all their fields are empty. Every string
  field and every list field whose Go value is empty (the empty string, a list of
  length 0) is left out: provided no action list is the one-element list of the empty
  string, no key anywhere in the body has the empty string, the empty array or null as
  its value.
\<close>

theorem Marshal_omits_empty_fields:
  "(\<exists>pl. field_value ''payload'' (Marshal r) = Some (JObject pl)
        \<and> map_of pl ''mandator'' = Some (Marshal_Mandator (PayloadMandator (Payload r)))
        \<and> map_of pl ''mandatee'' = Some (Marshal_Mandatee (PayloadMandatee (Payload r))))
   \<and> Marshal_Mandator zero_Mandator = JObject []
   \<and> Marshal_Mandatee zero_Mandatee = JObject []
   \<and> ((\<forall>p \<in> set (elems (PayloadPower (Payload r))). elems (Action p) \<noteq> [[]]) \<longrightarrow>
        \<not> key_with blank_value (Marshal r))"
proof (intro conjI impI)
  show "\<exists>pl. field_value ''payload'' (Marshal r) = Some (JObject pl)
        \<and> map_of pl ''mandator'' = Some (Marshal_Mandator (PayloadMandator (Payload r)))
        \<and> map_of pl ''mandatee'' = Some (Marshal_Mandatee (PayloadMandatee (Payload r)))"
    by (simp add: Marshal_def Marshal_Payload_def omitempty_string_def map_of_append)
  show "Marshal_Mandator zero_Mandator = JObject []"
    by (simp add: Marshal_Mandator_def zero_Mandator_def omitempty_string_def)
  show "Marshal_Mandatee zero_Mandatee = JObject []"
    by (simp add: Marshal_Mandatee_def zero_Mandatee_def omitempty_string_def)
next
  assume "\<forall>p \<in> set (elems (PayloadPower (Payload r))). elems (Action p) \<noteq> [[]]"
  then have "\<not> key_with blank_value (Marshal_Payload (Payload r))"
    by (rule Marshal_Payload_blank)
  then show "\<not> key_with blank_value (Marshal r)"
    by (simp add: Marshal_def key_with_members_append omitempty_string_blank objects_not_blank)
qed

theorem Marshal_omits_empty_fields_witness:
  "field_value ''schema'' (Marshal Cred2) = Some (JString ''LEARCredentialEmployee'')
   \<and> field_value ''response_uri'' (Marshal Cred2) = None
   \<and> \<not> key_with blank_value (Marshal Cred2)"
proof -
  have "\<forall>p \<in> set (elems (PayloadPower (Payload Cred2))). elems (Action p) \<noteq> [[]]"
    by (simp add: Cred2_def)
  with Marshal_omits_empty_fields [of Cred2] have "\<not> key_with blank_value (Marshal Cred2)"
    by blast
  moreover have "field_value ''schema'' (Marshal Cred2) = Some (JString ''LEARCredentialEmployee'')"
    by (simp add: Marshal_def Cred2_def omitempty_string_def)
  moreover have "field_value ''response_uri'' (Marshal Cred2) = None"
    by (simp add: Marshal_def Cred2_def omitempty_string_def)
  ultimately show ?thesis by blast
qed


text \<open>The identifier of the sample key, computed.\<close>

lemma didKey_pub0: "didKey pub0 = ''did:key:zDnaehBC97ZSEc6cwHLXXr6Zfrj1Tv9bxtsuFGPkxcXMj6FaZ''"
  by (simp add: didKey_def pub0_def X0_def Y0_def Let_def base58_Encode_def number_of_bytes_def
      digits58.simps alphabet58_def)

text \<open>
  Claim C4. As stated the claim fails in its last part: \<open>NewLEARIssuance\<close> also
  returns an error when the derived identifier is the configured one and the machine
  credential cannot be read.
\<close>

theorem NewLEARIssuance_error_without_mismatch:
  "NewLEARIssuance sys0 (config0 ''missing.vc'') = Inl (ReadFileError ''no such file or directory'')
   \<and> didKey pub0 = MyDidkey (config0 ''missing.vc'')"
proof -
  have len: "\<not> length pub0 < 65"
    by (simp add: pub0_def X0_def Y0_def)
  have "NewLEARIssuance sys0 (config0 ''missing.vc'') = Inl (ReadFileError ''no such file or directory'')"
    using len by (simp add: NewLEARIssuance_def sys0_def config0_def files0_def Let_def didKey_pub0)
  moreover have "didKey pub0 = MyDidkey (config0 ''missing.vc'')"
    by (simp add: config0_def didKey_pub0)
  ultimately show ?thesis by blast
qed

lemma number_of_bytes_snoc:
  "number_of_bytes (bs @ [b]) = 256 * number_of_bytes bs + unat b"
  by (simp add: number_of_bytes_def)

lemma byte_even: "(b mod 2 = 0) = even (unat b)" for b :: byte
  by (metis even_iff_mod_2_eq_zero even_of_nat mod_by_0 unsigned_0 word_arith_nat_mod)

lemma last_byte_parity:
  assumes "Y \<noteq> []"
  shows "even (number_of_bytes Y) = (last Y mod 2 = 0)"
proof -
  from assms obtain ys y where Y: "Y = ys @ [y]" by (metis rev_exhaust)
  show ?thesis by (simp add: Y number_of_bytes_snoc byte_even)
qed

lemma didKey_compressed:
  assumes "length X = 32" and "length Y = 32"
  shows "didKey (4 # X @ Y) =
     ''did:key:z'' @ base58_Encode ([0x80, 0x24] @ (if even (number_of_bytes Y) then 0x02 else 0x03) # X)"
proof -
  from assms have Y: "Y \<noteq> []" by auto
  have nth: "(4 # X @ Y) ! 64 = last Y"
    using assms Y by (simp add: nth_append last_conv_nth)
  have "didKey (4 # X @ Y) =
     ''did:key:z'' @ base58_Encode ([0x80, 0x24] @ (if last Y mod 2 \<noteq> 0 then 0x03 else 0x02) # X)"
    unfolding didKey_def Let_def nth using assms by simp
  then show ?thesis
    by (simp add: last_byte_parity [OF Y])
qed

text \<open>
  Claim C4, amended. For a key file that can be read, a key \<open>crypto/ecdsa\<close> accepts and
  its public key \<open>4, X, Y\<close> (32 bytes each): the derived identifier is \<open>did:key:z\<close>
  followed by the base58 encoding of the bytes \<open>0x80, 0x24\<close>, the byte 2 if the number
  \<open>Y\<close> is even and 3 if it is odd, and \<open>X\<close>; it is a function of the key.
  \<open>NewLEARIssuance\<close> returns the mismatch error exactly when the derived identifier
  differs from the configured one. When they are equal it constructs the client if the
  machine credential can be read, and returns the error of reading it otherwise.
\<close>

theorem NewLEARIssuance_identifier:
  assumes keyfile: "ReadFile sys (PrivateKeyFile config) = Inr raw"
    and parsed: "ParseRawPrivateKey sys (hex_DecodeString (TrimPrefix (TrimPrefix raw ''0x'') ''0X''))
                = Inr key"
    and pub: "PublicKey_Bytes sys key = Inr (4 # X @ Y)"
    and len: "length X = 32" "length Y = 32"
  shows "didKey (4 # X @ Y) =
           ''did:key:z'' @ base58_Encode
              ([0x80, 0x24] @ (if even (number_of_bytes Y) then 0x02 else 0x03) # X)
     \<and> (NewLEARIssuance sys config = Inl DidKeyMismatch
            \<longleftrightarrow> didKey (4 # X @ Y) \<noteq> MyDidkey config)
     \<and> (didKey (4 # X @ Y) = MyDidkey config \<longrightarrow>
          NewLEARIssuance sys config =
            (case ReadFile sys (MachineCredentialFile config) of
               Inl m \<Rightarrow> Inl (ReadFileError m)
             | Inr buf \<Rightarrow> Inr (client_of key buf config)))"
proof -
  have run: "NewLEARIssuance sys config =
      (if didKey (4 # X @ Y) \<noteq> MyDidkey config then Inl DidKeyMismatch
       else case ReadFile sys (MachineCredentialFile config) of
              Inl m \<Rightarrow> Inl (ReadFileError m)
            | Inr buf \<Rightarrow> Inr (client_of key buf config))"
    using keyfile parsed pub len
    by (simp add: NewLEARIssuance_def Let_def client_of_def split: sum.splits)
  have "NewLEARIssuance sys config = Inl DidKeyMismatch
            \<longleftrightarrow> didKey (4 # X @ Y) \<noteq> MyDidkey config"
    by (simp add: run split: sum.splits)
  moreover have "didKey (4 # X @ Y) = MyDidkey config \<longrightarrow>
          NewLEARIssuance sys config =
            (case ReadFile sys (MachineCredentialFile config) of
               Inl m \<Rightarrow> Inl (ReadFileError m)
             | Inr buf \<Rightarrow> Inr (client_of key buf config))"
    by (simp add: run)
  ultimately show ?thesis
    using didKey_compressed [OF len] by blast
qed


theorem NewLEARIssuance_identifier_witness:
  "NewLEARIssuance sys0 (config0 ''machine.vc'')
     = Inr (client_of (hex_DecodeString ''0826f120c769d4de55ad686b31c60242d87615a2bb25f53c07b580d9e7a074af'')
              ''eyJ'' (config0 ''machine.vc''))
   \<and> NewLEARIssuance sys0 ((config0 ''machine.vc'')\<lparr>MyDidkey := ''did:web:issuer.example''\<rparr>)
     = Inl DidKeyMismatch
   \<and> didKey pub0 = ''did:key:z'' @ base58_Encode ([0x80, 0x24, 0x02] @ X0)"
proof -
  let ?hex = "''0826f120c769d4de55ad686b31c60242d87615a2bb25f53c07b580d9e7a074af''"
  let ?raw = "''0x0826f120c769d4de55ad686b31c60242d87615a2bb25f53c07b580d9e7a074af''"
  let ?other = "(config0 ''machine.vc'')\<lparr>MyDidkey := ''did:web:issuer.example''\<rparr>"
  have keyfile: "ReadFile sys0 (PrivateKeyFile (config0 ''machine.vc'')) = Inr ?raw"
    "ReadFile sys0 (PrivateKeyFile ?other) = Inr ?raw"
    by (simp_all add: sys0_def config0_def files0_def)
  have trim: "TrimPrefix (TrimPrefix ?raw ''0x'') ''0X'' = ?hex"
    by (simp add: TrimPrefix_def)
  have parsed: "ParseRawPrivateKey sys0 (hex_DecodeString (TrimPrefix (TrimPrefix ?raw ''0x'') ''0X''))
      = Inr (hex_DecodeString ?hex)"
    unfolding trim by (simp add: sys0_def)
  have pub: "PublicKey_Bytes sys0 (hex_DecodeString ?hex) = Inr (4 # X0 @ Y0)"
    by (simp add: sys0_def pub0_def)
  have len: "length X0 = 32" "length Y0 = 32"
    by (simp_all add: X0_def Y0_def)
  have even0: "even (number_of_bytes Y0)"
    by (simp add: last_byte_parity Y0_def)
  have did: "didKey (4 # X0 @ Y0) = MyDidkey (config0 ''machine.vc'')"
    using didKey_pub0 by (simp add: config0_def pub0_def)
  have short: "didKey (4 # X0 @ Y0) \<noteq> ''did:web:issuer.example''"
    using didKey_pub0 by (simp add: pub0_def)
  have cred: "ReadFile sys0 (MachineCredentialFile (config0 ''machine.vc'')) = Inr ''eyJ''"
    by (simp add: sys0_def files0_def config0_def)
  have other: "MyDidkey ?other = ''did:web:issuer.example''"
    by simp
  note a = NewLEARIssuance_identifier [OF keyfile(1) parsed pub len]
  note b = NewLEARIssuance_identifier [OF keyfile(2) parsed pub len]
  from a [THEN conjunct2, THEN conjunct2, THEN mp, OF did]
  have r1: "NewLEARIssuance sys0 (config0 ''machine.vc'')
     = Inr (client_of (hex_DecodeString ?hex) ''eyJ'' (config0 ''machine.vc''))"
    by (simp only: cred sum.case)
  from b [THEN conjunct2, THEN conjunct1] short
  have r2: "NewLEARIssuance sys0 ?other = Inl DidKeyMismatch"
    by (simp add: other)
  from a [THEN conjunct1] even0
  have r3: "didKey pub0 = ''did:key:z'' @ base58_Encode ([0x80, 0x24, 0x02] @ X0)"
    by (simp add: pub0_def)
  from r1 r2 r3 show ?thesis by blast
qed

subsection \<open>Registration\<close>

text \<open>
  Claim C2. A POST request with the header \<open>X-Requested-With\<close> whose body decodes to
  a registration request with a non-empty \<open>website\<close> is answered with status 200,
  \<open>success\<close> true and the message \<open>Registration successful\<close>, the response an accepted
  registration gets (\<open>HandleRegister_accepted\<close> below); the table is unchanged (nothing
  is saved), no SMTP exchange is started, and no call is made: no issuance, no
  notification.
\<close>

theorem HandleRegister_honeypot:
  assumes "Method r = ''POST''" and "X_Requested_With r \<noteq> []"
    and "Body r = Some requestData" and "Website requestData \<noteq> []"
  shows "HandleRegister w runtime issuer mail st r = (Some success, st, [])"
  using assms by (simp add: HandleRegister_def validateCSRF_def success_def)

theorem HandleRegister_honeypot_witness:
  "HandleRegister (world500 None) Development client0 (mail0 [''onboarding-team@example.com''])
     empty_backend (submission ''http://bot.example'')
     = (Some success, empty_backend, [])"
proof -
  let ?r = "submission ''http://bot.example''"
  have "Method ?r = ''POST''" and "X_Requested_With ?r \<noteq> []"
    and "Body ?r = Some (applicant ''http://bot.example'')"
    and "Website (applicant ''http://bot.example'') \<noteq> []"
    by (simp_all add: submission_def applicant_def)
  then show ?thesis
    by (rule HandleRegister_honeypot)
qed

text \<open>What a successful save leaves in the table, and what the status update sets.\<close>

lemma insert_row_stored:
  "insert_row reg db = (None, db1) \<Longrightarrow> reg \<in> set db1"
  by (auto simp: insert_row_def split: if_splits)

lemma AmendRegistration_stored:
  assumes "AmendRegistration reg now db = (None, reg1, db1)"
    and "filter (\<lambda>row. email row = email reg \<and> vat_id row = vat_id reg) db \<noteq> []"
  shows "\<exists>row \<in> set db1. registration_id row = registration_id reg \<and> email row = email reg"
proof -
  from assms(2) obtain row where row: "row \<in> set db" "email row = email reg" "vat_id row = vat_id reg"
    by (auto simp: filter_empty_conv)
  from assms(1) have db1: "db1 = map (\<lambda>row. if email row = email reg \<and> vat_id row = vat_id reg
                          then row\<lparr>registration_id := registration_id reg,
                                   first_name := first_name reg,
                                   last_name := last_name reg,
                                   company_name := company_name reg,
                                   country := country reg,
                                   updated_at := now,
                                   issuance_at := issuance_at reg,
                                   issuance_error := issuance_error reg,
                                   notif_email_at := notif_email_at reg,
                                   notif_email_error := notif_email_error reg\<rparr>
                          else row) db"
    by (auto simp: AmendRegistration_def Let_def split: if_splits)
  let ?new = "row\<lparr>registration_id := registration_id reg,
                                   first_name := first_name reg,
                                   last_name := last_name reg,
                                   company_name := company_name reg,
                                   country := country reg,
                                   updated_at := now,
                                   issuance_at := issuance_at reg,
                                   issuance_error := issuance_error reg,
                                   notif_email_at := notif_email_at reg,
                                   notif_email_error := notif_email_error reg\<rparr>"
  from row have "?new \<in> set db1" unfolding db1 by force
  moreover have "registration_id ?new = registration_id reg \<and> email ?new = email reg"
    using row by simp
  ultimately show ?thesis by blast
qed

lemma SaveRegistration_stored:
  assumes "SaveRegistration runtime now now2 reg db = (None, reg1, db1)"
  shows "registration_id reg1 = registration_id reg \<and> email reg1 = email reg
     \<and> (\<exists>row \<in> set db1. registration_id row = registration_id reg \<and> email row = email reg)"
proof -
  let ?reg = "reg\<lparr>created_at := now, updated_at := now, issuance_at := now,
                     notif_email_at := now, issuance_error := [], notif_email_error := []\<rparr>"
  have keys: "registration_id ?reg = registration_id reg" "email ?reg = email reg" by simp_all
  consider (amend) "filter (\<lambda>row. email row = email ?reg \<and> vat_id row = vat_id ?reg) db \<noteq> []"
      "AmendRegistration ?reg now2 db = (None, reg1, db1)"
    | (ins) "insert_row ?reg db = (None, db1)" "reg1 = ?reg"
  proof -
    have same: "filter (\<lambda>row. vat_id row = vat_id ?reg \<and> email row = email ?reg) db
       = filter (\<lambda>row. email row = email ?reg \<and> vat_id row = vat_id ?reg) db"
      by (rule filter_cong) auto
    from assms that show thesis
      unfolding SaveRegistration_def Let_def GetRegistration_def same
      by (auto split: if_splits list.splits prod.splits)
  qed
  then show ?thesis
  proof cases
    case amend
    from AmendRegistration_stored [OF amend(2) amend(1)] amend(2) show ?thesis
      by (auto simp: AmendRegistration_def Let_def split: if_splits)
  next
    case ins
    from insert_row_stored [OF ins(1)] have "?reg \<in> set db1" .
    moreover note keys
    ultimately have "\<exists>row \<in> set db1. registration_id row = registration_id reg \<and> email row = email reg"
      by blast
    with ins(2) show ?thesis by simp
  qed
qed

lemma UpdateRegistrationStatus_eq:
  "UpdateRegistrationStatus reg now db = (None, reg\<lparr>updated_at := now\<rparr>, map (set_status reg now) db)"
  by (simp add: UpdateRegistrationStatus_def Let_def set_status_def [abs_def])

lemma set_status_keys:
  "registration_id (set_status reg now row) = registration_id row"
  "email (set_status reg now row) = email row"
  by (simp_all add: set_status_def)

lemma UpdateRegistrationStatus_sets:
  assumes "UpdateRegistrationStatus reg now db = (err, regU, dbU)"
  shows "regU = reg\<lparr>updated_at := now\<rparr>"
    and "\<forall>row \<in> set dbU. registration_id row = registration_id reg \<and> email row = email reg
           \<longrightarrow> issuance_error row = issuance_error reg"
    and "(\<exists>row \<in> set db. registration_id row = registration_id reg \<and> email row = email reg)
           \<Longrightarrow> (\<exists>row \<in> set dbU. registration_id row = registration_id reg \<and> email row = email reg)"
proof -
  from assms have regU: "regU = reg\<lparr>updated_at := now\<rparr>" and dbU: "dbU = map (set_status reg now) db"
    by (simp_all add: UpdateRegistrationStatus_eq)
  show "regU = reg\<lparr>updated_at := now\<rparr>" by (rule regU)
  show "\<forall>row \<in> set dbU. registration_id row = registration_id reg \<and> email row = email reg
           \<longrightarrow> issuance_error row = issuance_error reg"
    unfolding dbU by (auto simp: set_status_def)
  assume "\<exists>row \<in> set db. registration_id row = registration_id reg \<and> email row = email reg"
  then obtain row where row: "row \<in> set db" "registration_id row = registration_id reg"
      "email row = email reg" by blast
  then have "set_status reg now row \<in> set dbU" unfolding dbU by simp
  with row show "\<exists>row \<in> set dbU. registration_id row = registration_id reg \<and> email row = email reg"
    using set_status_keys by metis
qed

text \<open>The status update at the handler, with a statement that runs or fails.\<close>

lemma exec_UpdateRegistrationStatus_eq:
  "exec_UpdateRegistrationStatus fault reg now db =
     (case fault of None \<Rightarrow> None | Some m \<Rightarrow> Some (DriverError m),
      reg\<lparr>updated_at := now\<rparr>, updated fault reg now db)"
  by (simp add: exec_UpdateRegistrationStatus_def UpdateRegistrationStatus_eq updated_def
      split: option.splits)

lemma updated_ignores_updated_at:
  "updated fault (reg\<lparr>updated_at := t\<rparr>) now db = updated fault reg now db"
proof -
  have "set_status (reg\<lparr>updated_at := t\<rparr>) now = set_status reg now"
    by (rule ext) (simp add: set_status_def)
  then show ?thesis by (cases fault) (simp_all add: updated_def)
qed

lemma updated_has_row:
  assumes "\<exists>row \<in> set db. registration_id row = registration_id reg \<and> email row = email reg"
  shows "\<exists>row \<in> set (updated fault reg now db).
           registration_id row = registration_id reg \<and> email row = email reg"
proof (cases fault)
  case None
  from assms obtain row where row: "row \<in> set db" "registration_id row = registration_id reg"
      "email row = email reg" by blast
  then have "set_status reg now row \<in> set (updated fault reg now db)"
    using None by (simp add: updated_def)
  with row show ?thesis using set_status_keys by metis
next
  case (Some m)
  with assms show ?thesis by (simp add: updated_def)
qed

lemma updated_sets:
  assumes "row \<in> set (updated None reg now db)"
    and "registration_id row = registration_id reg" and "email row = email reg"
  shows "issuance_at row = issuance_at reg \<and> issuance_error row = issuance_error reg
       \<and> notif_email_at row = notif_email_at reg \<and> notif_email_error row = notif_email_error reg
       \<and> updated_at row = now"
  using assms by (auto simp: updated_def set_status_def split: if_splits)

text \<open>The mail service: its calls return, \<open>SendWelcomeEmail\<close> under a condition.\<close>

lemma transmit_returns:
  "\<exists>err d. transmit post s to subject body outbox = (Returns err, outbox @ [d])
           \<and> recipients d = to \<and> sender d = Username (smtpConfig s)"
  by (simp add: transmit_def Let_def)

lemma SendIssuerError_returns:
  "\<exists>err box. SendIssuerError post s reg payload errorMsg outbox = (Returns err, box)"
proof -
  from transmit_returns obtain err d where
    "transmit post s (issuerTeamEmail s)
       ''DOME: Error in Credential Issuer during customer registration''
       (projr (ExecuteTemplate post (projr (ParseFiles post ''src/email/issuer_error.html''))
          ''content''
          (map_of
              [(''FirstName'', Str (first_name reg)),
               (''CompanyName'', Str (company_name reg)),
               (''RegistrationID'', Str (registration_id reg)),
               (''Payload'', Indented payload),
               (''ErrorMsg'', Str errorMsg),
               (''Runtime'', Str (mail_runtime s))]))) outbox
     = (Returns err, outbox @ [d])"
    by blast
  then show ?thesis
    by (auto simp: SendIssuerError_def Let_def split: sum.splits)
qed

lemma SendWelcomeEmail_returns:
  assumes "Enabled (smtpConfig s) \<longrightarrow> onboardTeamEmail s \<noteq> []"
  shows "\<exists>err box. SendWelcomeEmail post s reg outbox = (Returns err, box)"
proof -
  have "\<exists>err box. transmit post s to subject body outbox = (Returns err, box)"
    for to subject body
    using transmit_returns by blast
  with assms show ?thesis
    by (auto simp: SendWelcomeEmail_def Let_def split: sum.splits)
qed

text \<open>
  \<open>SendWelcomeEmail\<close> panics exactly when SMTP is enabled and the service has no address
  of the onboarding team: the template data reads \<open>s.onboardTeamEmail[0]\<close>, and nothing
  checks the list. In every other case it returns, with an error or without.
\<close>

theorem SendWelcomeEmail_panics:
  "fst (SendWelcomeEmail post s reg outbox) = Panics
     \<longleftrightarrow> Enabled (smtpConfig s) \<and> onboardTeamEmail s = []"
proof (cases "Enabled (smtpConfig s) \<and> onboardTeamEmail s = []")
  case True
  then show ?thesis by (simp add: SendWelcomeEmail_def)
next
  case False
  then have "Enabled (smtpConfig s) \<longrightarrow> onboardTeamEmail s \<noteq> []" by simp
  from SendWelcomeEmail_returns [OF this] obtain err box where
    "SendWelcomeEmail post s reg outbox = (Returns err, box)" by blast
  with False show ?thesis by simp
qed

lemma notified_keys:
  "registration_id (notified w err reg) = registration_id reg"
  "email (notified w err reg) = email reg"
  "issuance_error (notified w err reg) = issuance_error reg"
  by (simp_all add: notified_def split: option.splits)

lemma notify_welcome_returns:
  assumes "SendWelcomeEmail (Mailing w) mail reg (Outbox st) = (Returns err, box)"
  shows "notify_welcome w mail reg st =
     (Some success,
      \<lparr>Table = updated (fault_UpdateNotif w) (notified w err reg) (now_UpdateNotif w) (Table st),
       Outbox = box\<rparr>)"
  using assms
  by (simp add: notify_welcome_def Let_def exec_UpdateRegistrationStatus_eq success_def
      notified_def)

lemma submission_valid:
  "Validate (applicant []) = None"
  by (simp add: applicant_def Validate_def IsValidCountry_def Countries_def ana_valid)

text \<open>
  Claim C1. As stated the claim fails. It says that whenever the request passes
  validation, \<open>SaveRegistration\<close> succeeds and \<open>LEARIssuanceRequest\<close> fails, the status
  with the error is persisted and the response is 200. It fails twice on the submission
  of the scenario, with an Issuer that answers 500. When the statements of both calls of
  \<open>UpdateRegistrationStatus\<close> fail, the handler logs the two errors and goes on: it
  answers 200 with \<open>Registration successful\<close>, and the row of the registration still
  has an empty \<open>issuance_error\<close>. With a mail service that has SMTP enabled and no
  address of the onboarding team, \<open>SendWelcomeEmail\<close> panics on
  \<open>s.onboardTeamEmail[0]\<close> and the handler writes no response.
\<close>

theorem HandleRegister_issuance_failure_unpersisted:
  "Validate (applicant []) = None
   \<and> fst (SaveRegistration Development 1 2 (reg_of ''20260222-12345678'' (applicant [])) [])
      = None
   \<and> LEARIssuanceRequest (Net (world500 (Some ''database is locked''))) client0
        (cred_of (applicant []))
      = Inl (StatusError ''500 Internal Server Error'')
   \<and> fst (HandleRegister (world500 (Some ''database is locked'')) Development client0
             (mail0 [''onboarding-team@example.com'']) empty_backend (submission []))
      = Some success
   \<and> map issuance_error
        (Table (fst (snd (HandleRegister (world500 (Some ''database is locked'')) Development
           client0 (mail0 [''onboarding-team@example.com'']) empty_backend (submission [])))))
      = [[]]
   \<and> fst (HandleRegister (world500 None) Development client0 (mail0 []) empty_backend
             (submission []))
      = None"
proof -
  let ?reg0 = "reg_of ''20260222-12345678'' (applicant [])"
  let ?text = "''error calling LEAR Issuance Endpoint: 500 Internal Server Error''"
  have valid: "Validate (applicant []) = None"
    by (rule submission_valid)
  have saved: "SaveRegistration Development 1 2 ?reg0 [] = (None, stamped 1 ?reg0, [stamped 1 ?reg0])"
    by (simp add: SaveRegistration_first)
  have failed: "LEARIssuanceRequest (Net (world500 fault)) client0 (cred_of (applicant []))
      = Inl (StatusError ''500 Internal Server Error'')" for fault
    by (simp add: LEARIssuanceRequest_def world500_def answering_def Let_def)
  have sent: "\<exists>box. SendIssuerError post0 (mail0 team) reg payload errorMsg [] = (Returns None, box)"
    for team reg payload errorMsg
    by (simp add: SendIssuerError_def mail0_def post0_def transmit_def Let_def)
  have greeted: "\<exists>box2. SendWelcomeEmail post0 (mail0 [''onboarding-team@example.com'']) reg box
      = (Returns None, box2)"
    for reg box
    by (simp add: SendWelcomeEmail_def mail0_def post0_def transmit_def Let_def)
  have panics: "SendWelcomeEmail post0 (mail0 []) reg box = (Panics, box)" for reg box
    by (simp add: SendWelcomeEmail_def mail0_def)
  have head: "Method (submission []) = ''POST''" "validateCSRF (submission [])"
    "Body (submission []) = Some (applicant [])" "Website (applicant []) = []"
    by (simp_all add: submission_def validateCSRF_def applicant_def)
  have names: "regID (world500 fault) = ''20260222-12345678''"
    "now_SaveRegistration (world500 fault) = 1" "now_AmendRegistration (world500 fault) = 2"
    "Mailing (world500 fault) = post0" "fault_UpdateIssuance (world500 fault) = fault"
    "fault_UpdateNotif (world500 fault) = fault" for fault
    by (simp_all add: world500_def)
  let ?w = "world500 (Some ''database is locked'')"
  let ?reg3 = "(stamped 1 ?reg0)\<lparr>issuance_at := now_IssuanceAt ?w, issuance_error := ?text,
       updated_at := now_UpdateIssuance ?w\<rparr>"
  from sent obtain box1 where box1:
    "SendIssuerError post0 (mail0 [''onboarding-team@example.com'']) ?reg3
       (Marshal (cred_of (applicant []))) ?text [] = (Returns None, box1)"
    by blast
  from greeted obtain box2 where box2:
    "SendWelcomeEmail post0 (mail0 [''onboarding-team@example.com'']) ?reg3 box1
       = (Returns None, box2)"
    by blast
  have welcomed: "notify_welcome ?w (mail0 [''onboarding-team@example.com'']) ?reg3
       \<lparr>Table = [stamped 1 ?reg0], Outbox = box1\<rparr>
     = (Some success, \<lparr>Table = [stamped 1 ?reg0], Outbox = box2\<rparr>)"
    using box2 by (simp add: notify_welcome_returns names updated_def)
  have locked: "HandleRegister ?w Development client0
      (mail0 [''onboarding-team@example.com'']) empty_backend (submission [])
    = (Some success, \<lparr>Table = [stamped 1 ?reg0], Outbox = box2\<rparr>,
       [Called_LEARIssuanceRequest (cred_of (applicant [])),
        Called_SendIssuerError ?reg3 (Marshal (cred_of (applicant []))) ?text,
        Called_SendWelcomeEmail ?reg3])"
    by (simp add: HandleRegister_def head valid names saved failed box1 welcomed
          exec_UpdateRegistrationStatus_eq empty_backend_def updated_def Let_def)
  from sent obtain box3 where box3:
    "SendIssuerError post0 (mail0 [])
       ((stamped 1 ?reg0)\<lparr>issuance_at := now_IssuanceAt (world500 None), issuance_error := ?text,
           updated_at := now_UpdateIssuance (world500 None)\<rparr>)
       (Marshal (cred_of (applicant []))) ?text [] = (Returns None, box3)"
    by blast
  have panicked: "fst (HandleRegister (world500 None) Development client0 (mail0 [])
      empty_backend (submission [])) = None"
    by (simp add: HandleRegister_def head valid names saved failed box3 panics
        notify_welcome_def exec_UpdateRegistrationStatus_eq empty_backend_def Let_def)
  show ?thesis
    apply (intro conjI)
         apply (rule valid)
        apply (simp add: saved)
       apply (rule failed)
      apply (simp add: locked)
     apply (simp add: locked stamped_def)
    apply (rule panicked)
    done
qed

text \<open>
  Claim C1, amended. For a well-formed request (POST, with the header, a body that
  decodes, an empty \<open>website\<close>) that passes \<open>Validate\<close> and whose \<open>SaveRegistration\<close>
  succeeds, if \<open>LEARIssuanceRequest\<close> returns an error, and the mail service has an
  address of the onboarding team whenever SMTP is enabled, then the handler

  \<^item> puts the text of the error in the registration's \<open>issuance_error\<close> and calls
    \<open>UpdateRegistrationStatus\<close> with it, whose error, if any, is only logged;
  \<^item> calls \<open>SendIssuerError\<close> on that registration with the request it had for the
    Issuer and the text, and then \<open>SendWelcomeEmail\<close> on it, each starting the SMTP
    exchange it starts;
  \<^item> puts the result of \<open>SendWelcomeEmail\<close> in the registration (its error in
    \<open>notif_email_error\<close>, or the time in \<open>notif_email_at\<close> with an empty error) and calls
    \<open>UpdateRegistrationStatus\<close> again, whose error, if any, is only logged;
  \<^item> answers with status 200, \<open>success\<close> true and the message \<open>Registration successful\<close>.

  The table keeps the row of this registration. When the statement of one of the two
  updates runs, every row of this registration has the text of the error in
  \<open>issuance_error\<close>; when the statement of the second runs, it also has the result of
  \<open>SendWelcomeEmail\<close>.
\<close>

theorem HandleRegister_issuance_failure:
  assumes post: "Method r = ''POST''" and csrf: "X_Requested_With r \<noteq> []"
    and body: "Body r = Some requestData" and human: "Website requestData = []"
    and valid: "Validate requestData = None"
    and saved: "SaveRegistration runtime (now_SaveRegistration w) (now_AmendRegistration w)
                  (reg_of (regID w) requestData) (Table st) = (None, reg1, db1)"
    and failed: "LEARIssuanceRequest (Net w) issuer (cred_of requestData) = Inl issError"
    and returned: "issError \<noteq> NilRequestPanic"
    and team: "Enabled (smtpConfig mail) \<longrightarrow> onboardTeamEmail mail \<noteq> []"
  shows "\<exists>reg3 mailErr box1 welcomeErr box2 db3.
       reg3 = reg1\<lparr>issuance_at := now_IssuanceAt w, issuance_error := Error issError,
                   updated_at := now_UpdateIssuance w\<rparr>
     \<and> SendIssuerError (Mailing w) mail reg3 (Marshal (cred_of requestData)) (Error issError)
           (Outbox st) = (Returns mailErr, box1)
     \<and> SendWelcomeEmail (Mailing w) mail reg3 box1 = (Returns welcomeErr, box2)
     \<and> db3 = updated (fault_UpdateNotif w) (notified w welcomeErr reg3) (now_UpdateNotif w)
               (updated (fault_UpdateIssuance w) reg3 (now_UpdateIssuance w) db1)
     \<and> HandleRegister w runtime issuer mail st r =
         (Some success, \<lparr>Table = db3, Outbox = box2\<rparr>,
          [Called_LEARIssuanceRequest (cred_of requestData),
           Called_SendIssuerError reg3 (Marshal (cred_of requestData)) (Error issError),
           Called_SendWelcomeEmail reg3])
     \<and> (\<exists>row \<in> set db3. registration_id row = regID w \<and> email row = Email requestData)
     \<and> (fault_UpdateIssuance w = None \<or> fault_UpdateNotif w = None \<longrightarrow>
          (\<forall>row \<in> set db3. registration_id row = regID w \<and> email row = Email requestData
             \<longrightarrow> issuance_error row = Error issError))
     \<and> (fault_UpdateNotif w = None \<longrightarrow>
          (\<forall>row \<in> set db3. registration_id row = regID w \<and> email row = Email requestData
             \<longrightarrow> notif_email_error row = (case welcomeErr of None \<Rightarrow> [] | Some m \<Rightarrow> m)
               \<and> notif_email_at row
                     = (case welcomeErr of None \<Rightarrow> now_NotifEmailAt w
                        | Some m \<Rightarrow> notif_email_at reg1)))"
proof -
  let ?cred = "cred_of requestData"
  let ?reg2 = "reg1\<lparr>issuance_at := now_IssuanceAt w, issuance_error := Error issError\<rparr>"
  let ?reg3 = "?reg2\<lparr>updated_at := now_UpdateIssuance w\<rparr>"
  let ?db2 = "updated (fault_UpdateIssuance w) ?reg3 (now_UpdateIssuance w) db1"
  from SendIssuerError_returns obtain mailErr box1 where sent:
    "SendIssuerError (Mailing w) mail ?reg3 (Marshal ?cred) (Error issError) (Outbox st)
       = (Returns mailErr, box1)"
    by blast
  from SendWelcomeEmail_returns [OF team] obtain welcomeErr box2 where greeted:
    "SendWelcomeEmail (Mailing w) mail ?reg3 box1 = (Returns welcomeErr, box2)"
    by blast
  let ?regN = "notified w welcomeErr ?reg3"
  let ?db3 = "updated (fault_UpdateNotif w) ?regN (now_UpdateNotif w) ?db2"
  from SaveRegistration_stored [OF saved]
  have k1: "registration_id reg1 = regID w" "email reg1 = Email requestData"
    and s1: "\<exists>row \<in> set db1. registration_id row = regID w \<and> email row = Email requestData"
    by (simp_all add: reg_of_def)
  have k3: "registration_id ?reg3 = regID w" "email ?reg3 = Email requestData"
    "issuance_error ?reg3 = Error issError"
    using k1 by simp_all
  have kN: "registration_id ?regN = regID w" "email ?regN = Email requestData"
    "issuance_error ?regN = Error issError"
    using k3 by (simp_all only: notified_keys)
  have s2: "\<exists>row \<in> set ?db2. registration_id row = regID w \<and> email row = Email requestData"
    using updated_has_row [of db1 ?reg3 "fault_UpdateIssuance w" "now_UpdateIssuance w"] s1 k3
    by simp
  have s3: "\<exists>row \<in> set ?db3. registration_id row = regID w \<and> email row = Email requestData"
    using updated_has_row [of ?db2 ?regN "fault_UpdateNotif w" "now_UpdateNotif w"] s2 kN
    by simp
  have e3: "\<forall>row \<in> set ?db3. registration_id row = regID w \<and> email row = Email requestData
              \<longrightarrow> issuance_error row = Error issError"
    if "fault_UpdateIssuance w = None \<or> fault_UpdateNotif w = None"
  proof (cases "fault_UpdateNotif w")
    case None
    show ?thesis
    proof (intro ballI impI)
      fix row assume "row \<in> set ?db3"
        and "registration_id row = regID w \<and> email row = Email requestData"
      then have "issuance_error row = issuance_error ?regN"
        using updated_sets [of row ?regN "now_UpdateNotif w" ?db2] None kN by simp
      then show "issuance_error row = Error issError" using kN by simp
    qed
  next
    case (Some m)
    with that have first: "fault_UpdateIssuance w = None" by simp
    have "\<forall>row \<in> set ?db2. registration_id row = regID w \<and> email row = Email requestData
              \<longrightarrow> issuance_error row = Error issError"
    proof (intro ballI impI)
      fix row assume "row \<in> set ?db2"
        and "registration_id row = regID w \<and> email row = Email requestData"
      then have "issuance_error row = issuance_error ?reg3"
        using updated_sets [of row ?reg3 "now_UpdateIssuance w" db1] first k3 by simp
      then show "issuance_error row = Error issError" by simp
    qed
    then show ?thesis using Some by (simp add: updated_def)
  qed
  have n3: "\<forall>row \<in> set ?db3. registration_id row = regID w \<and> email row = Email requestData
              \<longrightarrow> notif_email_error row = (case welcomeErr of None \<Rightarrow> [] | Some m \<Rightarrow> m)
                \<and> notif_email_at row
                     = (case welcomeErr of None \<Rightarrow> now_NotifEmailAt w
                        | Some m \<Rightarrow> notif_email_at reg1)"
    if "fault_UpdateNotif w = None"
  proof (intro ballI impI)
    fix row assume "row \<in> set ?db3"
      and "registration_id row = regID w \<and> email row = Email requestData"
    then have "notif_email_error row = notif_email_error ?regN
        \<and> notif_email_at row = notif_email_at ?regN"
      using updated_sets [of row ?regN "now_UpdateNotif w" ?db2] that kN by simp
    then show "notif_email_error row = (case welcomeErr of None \<Rightarrow> [] | Some m \<Rightarrow> m)
        \<and> notif_email_at row
             = (case welcomeErr of None \<Rightarrow> now_NotifEmailAt w | Some m \<Rightarrow> notif_email_at reg1)"
      by (simp add: notified_def split: option.splits)
  qed
  have up1: "exec_UpdateRegistrationStatus (fault_UpdateIssuance w) ?reg2 (now_UpdateIssuance w) db1
      = (case fault_UpdateIssuance w of None \<Rightarrow> None | Some m \<Rightarrow> Some (DriverError m),
         ?reg3, ?db2)"
    by (simp only: exec_UpdateRegistrationStatus_eq updated_ignores_updated_at)
  have welcomed: "notify_welcome w mail ?reg3 \<lparr>Table = ?db2, Outbox = box1\<rparr>
      = (Some success, \<lparr>Table = ?db3, Outbox = box2\<rparr>)"
    using greeted by (simp add: notify_welcome_returns)
  have run: "HandleRegister w runtime issuer mail st r =
       (Some success, \<lparr>Table = ?db3, Outbox = box2\<rparr>,
        [Called_LEARIssuanceRequest ?cred,
         Called_SendIssuerError ?reg3 (Marshal ?cred) (Error issError),
         Called_SendWelcomeEmail ?reg3])"
    using post csrf body human valid saved failed returned up1 sent welcomed
    by (cases issError)
       (simp_all add: HandleRegister_def validateCSRF_def Let_def)
  show ?thesis
  proof (intro exI conjI)
    show "?reg3 = reg1\<lparr>issuance_at := now_IssuanceAt w, issuance_error := Error issError,
                   updated_at := now_UpdateIssuance w\<rparr>"
      by (rule refl)
    show "SendIssuerError (Mailing w) mail ?reg3 (Marshal ?cred) (Error issError) (Outbox st)
       = (Returns mailErr, box1)"
      by (rule sent)
    show "SendWelcomeEmail (Mailing w) mail ?reg3 box1 = (Returns welcomeErr, box2)"
      by (rule greeted)
    show "?db3 = updated (fault_UpdateNotif w) (notified w welcomeErr ?reg3) (now_UpdateNotif w)
               (updated (fault_UpdateIssuance w) ?reg3 (now_UpdateIssuance w) db1)"
      by (rule refl)
    show "HandleRegister w runtime issuer mail st r =
       (Some success, \<lparr>Table = ?db3, Outbox = box2\<rparr>,
        [Called_LEARIssuanceRequest ?cred,
         Called_SendIssuerError ?reg3 (Marshal ?cred) (Error issError),
         Called_SendWelcomeEmail ?reg3])"
      by (rule run)
    show "\<exists>row \<in> set ?db3. registration_id row = regID w \<and> email row = Email requestData"
      by (rule s3)
    show "fault_UpdateIssuance w = None \<or> fault_UpdateNotif w = None \<longrightarrow>
          (\<forall>row \<in> set ?db3. registration_id row = regID w \<and> email row = Email requestData
             \<longrightarrow> issuance_error row = Error issError)"
      using e3 by (rule impI)
    show "fault_UpdateNotif w = None \<longrightarrow>
          (\<forall>row \<in> set ?db3. registration_id row = regID w \<and> email row = Email requestData
             \<longrightarrow> notif_email_error row = (case welcomeErr of None \<Rightarrow> [] | Some m \<Rightarrow> m)
               \<and> notif_email_at row
                     = (case welcomeErr of None \<Rightarrow> now_NotifEmailAt w
                        | Some m \<Rightarrow> notif_email_at reg1))"
      using n3 by (rule impI)
  qed
qed

theorem HandleRegister_issuance_failure_witness:
  "fst (HandleRegister (world500 None) Development client0
          (mail0 [''onboarding-team@example.com'']) empty_backend (submission []))
     = Some success
   \<and> map issuance_error
        (Table (fst (snd (HandleRegister (world500 None) Development client0
           (mail0 [''onboarding-team@example.com'']) empty_backend (submission [])))))
      = [''error calling LEAR Issuance Endpoint: 500 Internal Server Error'']
   \<and> map notif_email_at
        (Table (fst (snd (HandleRegister (world500 None) Development client0
           (mail0 [''onboarding-team@example.com'']) empty_backend (submission [])))))
      = [5]
   \<and> map recipients
        (Outbox (fst (snd (HandleRegister (world500 None) Development client0
           (mail0 [''onboarding-team@example.com'']) empty_backend (submission [])))))
      = [[''issuer-team@example.com''], [''ana@example.com'']]"
proof -
  let ?w = "world500 None :: unit World"
  let ?mail = "mail0 [''onboarding-team@example.com'']"
  let ?reg0 = "reg_of (regID ?w) (applicant [])"
  have post: "Method (submission []) = ''POST''" and csrf: "X_Requested_With (submission []) \<noteq> []"
    and body: "Body (submission []) = Some (applicant [])" and human: "Website (applicant []) = []"
    by (simp_all add: submission_def applicant_def)
  have valid: "Validate (applicant []) = None"
    by (rule submission_valid)
  have saved: "SaveRegistration Development (now_SaveRegistration ?w) (now_AmendRegistration ?w)
      ?reg0 (Table empty_backend) = (None, stamped 1 ?reg0, [stamped 1 ?reg0])"
    by (simp add: SaveRegistration_first world500_def empty_backend_def)
  have failed: "LEARIssuanceRequest (Net ?w) client0 (cred_of (applicant []))
      = Inl (StatusError ''500 Internal Server Error'')"
    by (simp add: LEARIssuanceRequest_def world500_def answering_def Let_def)
  have returned: "StatusError ''500 Internal Server Error'' \<noteq> NilRequestPanic"
    by simp
  have team: "Enabled (smtpConfig ?mail) \<longrightarrow> onboardTeamEmail ?mail \<noteq> []"
    by (simp add: mail0_def)
  from HandleRegister_issuance_failure [OF post csrf body human valid saved failed returned team]
  obtain reg3 mailErr box1 welcomeErr box2 db3 where
    reg3: "reg3 = (stamped 1 ?reg0)\<lparr>issuance_at := now_IssuanceAt ?w,
        issuance_error := Error (StatusError ''500 Internal Server Error''),
        updated_at := now_UpdateIssuance ?w\<rparr>"
    and sent: "SendIssuerError (Mailing ?w) ?mail reg3 (Marshal (cred_of (applicant [])))
        (Error (StatusError ''500 Internal Server Error'')) (Outbox empty_backend)
        = (Returns mailErr, box1)"
    and greeted: "SendWelcomeEmail (Mailing ?w) ?mail reg3 box1 = (Returns welcomeErr, box2)"
    and db3: "db3 = updated (fault_UpdateNotif ?w) (notified ?w welcomeErr reg3) (now_UpdateNotif ?w)
               (updated (fault_UpdateIssuance ?w) reg3 (now_UpdateIssuance ?w) [stamped 1 ?reg0])"
    and run: "HandleRegister ?w Development client0 ?mail empty_backend (submission []) =
         (Some success, \<lparr>Table = db3, Outbox = box2\<rparr>,
          [Called_LEARIssuanceRequest (cred_of (applicant [])),
           Called_SendIssuerError reg3 (Marshal (cred_of (applicant [])))
             (Error (StatusError ''500 Internal Server Error'')),
           Called_SendWelcomeEmail reg3])"
    by blast
  have names: "Mailing ?w = post0" "fault_UpdateIssuance ?w = None" "fault_UpdateNotif ?w = None"
    "now_NotifEmailAt ?w = 5" "regID ?w = ''20260222-12345678''"
    by (simp_all add: world500_def)
  from sent have box1: "map recipients box1 = [[''issuer-team@example.com'']]"
    and mailErr: "mailErr = None"
    by (auto simp: SendIssuerError_def names mail0_def post0_def transmit_def Let_def
        empty_backend_def)
  from greeted box1 have box2: "map recipients box2
      = [[''issuer-team@example.com''], [''ana@example.com'']]"
    and welcomeErr: "welcomeErr = None"
    by (auto simp: SendWelcomeEmail_def names mail0_def post0_def transmit_def Let_def reg3
        reg_of_def stamped_def applicant_def)
  have rows: "map issuance_error db3
      = [''error calling LEAR Issuance Endpoint: 500 Internal Server Error'']"
    "map notif_email_at db3 = [5]"
    by (simp_all add: db3 names welcomeErr updated_def set_status_def notified_def reg3
        reg_of_def stamped_def applicant_def)
  from run rows box2 show ?thesis by simp
qed

text \<open>
  Every accepted registration gets the same response, whatever the Issuer returns,
  when neither the issuance client nor the mail service panics.
\<close>

lemma HandleRegister_accepted:
  assumes "Method r = ''POST''" and "X_Requested_With r \<noteq> []"
    and "Body r = Some requestData" and "Website requestData = []"
    and "Validate requestData = None"
    and "SaveRegistration runtime (now_SaveRegistration w) (now_AmendRegistration w)
           (reg_of (regID w) requestData) (Table st) = (None, reg1, db1)"
    and "LEARIssuanceRequest (Net w) issuer (cred_of requestData) \<noteq> Inl NilRequestPanic"
    and team: "Enabled (smtpConfig mail) \<longrightarrow> onboardTeamEmail mail \<noteq> []"
  shows "fst (HandleRegister w runtime issuer mail st r) = Some success"
proof -
  have welcomed: "fst (notify_welcome w mail reg st2) = Some success" for reg st2
  proof -
    from SendWelcomeEmail_returns [OF team] obtain err box where
      "SendWelcomeEmail (Mailing w) mail reg (Outbox st2) = (Returns err, box)"
      by blast
    then show ?thesis by (simp add: notify_welcome_returns)
  qed
  show ?thesis
  proof (cases "LEARIssuanceRequest (Net w) issuer (cred_of requestData)")
    case (Inl issError)
    with assms(7) have returned: "issError \<noteq> NilRequestPanic" by simp
    let ?reg3 = "reg1\<lparr>issuance_at := now_IssuanceAt w, issuance_error := Error issError,
        updated_at := now_UpdateIssuance w\<rparr>"
    from SendIssuerError_returns obtain mailErr box1 where
      "SendIssuerError (Mailing w) mail ?reg3 (Marshal (cred_of requestData)) (Error issError)
         (Outbox st) = (Returns mailErr, box1)"
      by blast
    with Inl returned assms(1-6) welcomed show ?thesis
      by (cases issError)
         (simp_all add: HandleRegister_def validateCSRF_def Let_def
            exec_UpdateRegistrationStatus_eq case_prod_beta)
  next
    case (Inr body)
    with assms(1-6) welcomed show ?thesis
      by (simp add: HandleRegister_def validateCSRF_def Let_def
          exec_UpdateRegistrationStatus_eq case_prod_beta)
  qed
qed

end
